theory Spec2Isabelle
  imports Complex_Main "HOL-Library.AList"
begin

section \<open>Python values\<close>

text \<open>
  The offer reader (\<^verbatim>\<open>app.py\<close>) works on the untyped values that \<^verbatim>\<open>json.loads\<close>
  returns: \<^verbatim>\<open>None\<close>, booleans, unbounded integers, floats, strings, lists and
  dictionaries with string keys. A dictionary is an association list in insertion order
  (\<^verbatim>\<open>dict\<close> keeps it); text is a list of 8-bit characters, each one code point below 256.
  An exception that leaves a function is the \<open>Inl\<close> of its result.
\<close>

datatype exn = JSONDecodeError | ValueError | TypeError | AttributeError | OverflowError
  | APIError

text \<open>
  A float is a binary64 value: a finite one is the rational it denotes, with the negative
  zero, the two infinities and NaN apart.
\<close>

datatype pyfloat = Finite rat | NegZero | PInf | NInf | NaN

datatype pyval = PNone | PBool bool | PInt int | PFloat pyfloat | PStr string
  | PList "pyval list" | PDict "(string \<times> pyval) list"

type_synonym pydict = "(string \<times> pyval) list"

text \<open>Truth value testing, as \<^verbatim>\<open>x or y\<close> and \<^verbatim>\<open>if x\<close> apply it.\<close>

fun truthy :: "pyval \<Rightarrow> bool" where
  "truthy PNone = False"
| "truthy (PBool b) = b"
| "truthy (PInt n) = (n \<noteq> 0)"
| "truthy (PFloat f) = (f \<noteq> Finite 0 \<and> f \<noteq> NegZero)"
| "truthy (PStr s) = (s \<noteq> [])"
| "truthy (PList xs) = (xs \<noteq> [])"
| "truthy (PDict kvs) = (kvs \<noteq> [])"

definition py_or :: "pyval \<Rightarrow> pyval \<Rightarrow> pyval" where
  "py_or a b = (if truthy a then a else b)"

text \<open>\<^verbatim>\<open>d.get(k)\<close> and \<^verbatim>\<open>d.get(k, default)\<close> on a dictionary.\<close>

definition dict_get_default :: "pydict \<Rightarrow> string \<Rightarrow> pyval \<Rightarrow> pyval" where
  "dict_get_default d k dflt = (case map_of d k of None \<Rightarrow> dflt | Some v \<Rightarrow> v)"

definition dict_get :: "pydict \<Rightarrow> string \<Rightarrow> pyval" where
  "dict_get d k = dict_get_default d k PNone"

fun is_dict :: "pyval \<Rightarrow> bool" where
  "is_dict (PDict kvs) = True"
| "is_dict v = False"

fun is_list :: "pyval \<Rightarrow> bool" where
  "is_list (PList xs) = True"
| "is_list v = False"

section \<open>String operations\<close>

text \<open>
  \<^verbatim>\<open>str.isspace\<close> on the code points below 256: tab to carriage return, the four
  separators 0x1C to 0x1F, the space, NEL and the no-break space.
\<close>

definition py_isspace :: "char \<Rightarrow> bool" where
  "py_isspace c =
     (let n = (of_char c :: nat)
      in (9 \<le> n \<and> n \<le> 13) \<or> (28 \<le> n \<and> n \<le> 32) \<or> n = 133 \<or> n = 160)"

definition py_strip :: "string \<Rightarrow> string" where
  "py_strip s = rev (dropWhile py_isspace (rev (dropWhile py_isspace s)))"

text \<open>
  \<^verbatim>\<open>s.find(sub)\<close>: the lowest index where \<open>sub\<close> starts, or \<open>-1\<close>;
  \<^verbatim>\<open>s.rfind(sub)\<close>: the highest.
\<close>

fun find_at :: "string \<Rightarrow> string \<Rightarrow> int \<Rightarrow> int" where
  "find_at sub [] i = (if sub = [] then i else - 1)"
| "find_at sub (c # cs) i =
     (if take (length sub) (c # cs) = sub then i else find_at sub cs (i + 1))"

definition py_find :: "string \<Rightarrow> string \<Rightarrow> int" where
  "py_find s sub = find_at sub s 0"

fun rfind_at :: "string \<Rightarrow> string \<Rightarrow> int \<Rightarrow> int \<Rightarrow> int" where
  "rfind_at sub [] i best = (if sub = [] then i else best)"
| "rfind_at sub (c # cs) i best =
     rfind_at sub cs (i + 1) (if take (length sub) (c # cs) = sub then i else best)"

definition py_rfind :: "string \<Rightarrow> string \<Rightarrow> int" where
  "py_rfind s sub = rfind_at sub s 0 (- 1)"

text \<open>\<^verbatim>\<open>s[a:b]\<close>: a negative index counts from the end, and both are clamped.\<close>

definition slice_index :: "nat \<Rightarrow> int \<Rightarrow> nat" where
  "slice_index n i = (if i < 0 then nat (int n + i) else min n (nat i))"

definition py_slice :: "'a list \<Rightarrow> int \<Rightarrow> int \<Rightarrow> 'a list" where
  "py_slice s a b =
     (let lo = slice_index (length s) a; hi = slice_index (length s) b
      in if hi \<le> lo then [] else take (hi - lo) (drop lo s))"

text \<open>
  \<^verbatim>\<open>s.replace(old, new)\<close>: every occurrence of \<open>old\<close>, left to right, without
  overlap; an empty \<open>old\<close> matches before every character and at the end.
\<close>

function py_replace :: "string \<Rightarrow> string \<Rightarrow> string \<Rightarrow> string" where
  "py_replace s old new =
     (if old = [] then new @ concat (map (\<lambda>c. c # new) s)
      else if s = [] then []
      else if take (length old) s = old then new @ py_replace (drop (length old) s) old new
      else hd s # py_replace (tl s) old new)"
  by pat_completeness auto
termination
  by (relation "measure (\<lambda>(s, old, new). length s)") auto

declare py_replace.simps [simp del]

text \<open>\<^verbatim>\<open>sep.join(parts)\<close>.\<close>

fun py_join :: "string \<Rightarrow> string list \<Rightarrow> string" where
  "py_join sep [] = []"
| "py_join sep [x] = x"
| "py_join sep (x # y # ys) = x @ sep @ py_join sep (y # ys)"

section \<open>Floats\<close>

text \<open>
  \<^verbatim>\<open>float\<close> rounds to the nearest binary64 value, ties to even: 53 significant bits, the
  exponent of the last bit not below \<open>-1074\<close>. \<open>round_nearest\<close> does so for a
  non-negative rational and does not look at the upper end of the range; a result from
  \<open>2 ^ 1024\<close> on is beyond the largest double.
\<close>

fun bitlen :: "int \<Rightarrow> int" where
  "bitlen n = (if n \<le> 0 then 0 else 1 + bitlen (n div 2))"

declare bitlen.simps [simp del]

definition pow2 :: "int \<Rightarrow> rat" where
  "pow2 e = (if 0 \<le> e then 2 ^ nat e else 1 / 2 ^ nat (- e))"

definition pow10 :: "int \<Rightarrow> rat" where
  "pow10 e = (if 0 \<le> e then 10 ^ nat e else 1 / 10 ^ nat (- e))"

definition round_half_even :: "rat \<Rightarrow> int" where
  "round_half_even x =
     (let f = \<lfloor>x\<rfloor>; r = x - of_int f
      in if r < 1 / 2 then f else if 1 / 2 < r then f + 1
         else if even f then f else f + 1)"

definition floor_log2 :: "rat \<Rightarrow> int" where
  "floor_log2 q =
     (let (n, d) = quotient_of q; e = bitlen n - bitlen d
      in if pow2 e \<le> q then e else e - 1)"

definition round_nearest :: "rat \<Rightarrow> rat" where
  "round_nearest q =
     (if q = 0 then 0
      else let k = max (floor_log2 q) (- 1022) - 52
           in of_int (round_half_even (q / pow2 k)) * pow2 k)"

text \<open>
  The float of a sign and a magnitude, as the conversion of a decimal text gives it: beyond
  the range it is an infinity, and a negative value that rounds to zero is the negative
  zero. \<open>double q\<close> is the float that the decimal \<open>q\<close> denotes in a Python program.
\<close>

definition to_double :: "bool \<Rightarrow> rat \<Rightarrow> pyfloat" where
  "to_double neg q =
     (let r = round_nearest q
      in if pow2 1024 \<le> r then (if neg then NInf else PInf)
         else if r = 0 then (if neg then NegZero else Finite 0)
         else Finite (if neg then - r else r))"

definition double :: "rat \<Rightarrow> pyfloat" where
  "double q = to_double (q < 0) \<bar>q\<bar>"

definition is_finite :: "pyfloat \<Rightarrow> bool" where
  "is_finite f = (case f of Finite q \<Rightarrow> True | NegZero \<Rightarrow> True | _ \<Rightarrow> False)"

text \<open>\<^verbatim>\<open>float(n)\<close> for an integer raises \<^verbatim>\<open>OverflowError\<close> beyond the range.\<close>

definition float_of_int :: "int \<Rightarrow> exn + pyfloat" where
  "float_of_int n =
     (let r = round_nearest (of_int \<bar>n\<bar>)
      in if pow2 1024 \<le> r then Inl OverflowError
         else Inr (Finite (if n < 0 then - r else r)))"

text \<open>
  \<^verbatim>\<open>float(s)\<close> for a text. It strips the white space around the text (for \<^verbatim>\<open>float\<close>:
  tab to carriage return, the space, NEL and the no-break space), reads an optional sign,
  then \<^verbatim>\<open>inf\<close>, \<^verbatim>\<open>infinity\<close> or \<^verbatim>\<open>nan\<close> in any case, or a decimal number: digits with an
  optional point (one digit at least), an optional exponent, and single underscores
  between digits. Everything else raises \<^verbatim>\<open>ValueError\<close>.
\<close>

definition is_digit :: "char \<Rightarrow> bool" where
  "is_digit c = ((48::nat) \<le> of_char c \<and> (of_char c :: nat) \<le> 57)"

definition digits_val :: "string \<Rightarrow> int" where
  "digits_val ds = foldl (\<lambda>a c. 10 * a + (int (of_char c) - 48)) 0 ds"

definition float_isspace :: "char \<Rightarrow> bool" where
  "float_isspace c =
     (let n = (of_char c :: nat) in (9 \<le> n \<and> n \<le> 13) \<or> n = 32 \<or> n = 133 \<or> n = 160)"

definition ascii_lower :: "char \<Rightarrow> char" where
  "ascii_lower c =
     (let n = (of_char c :: nat) in if 65 \<le> n \<and> n \<le> 90 then char_of (n + 32) else c)"

definition split_sign :: "string \<Rightarrow> bool \<times> string" where
  "split_sign s =
     (case s of [] \<Rightarrow> (False, [])
      | c # cs \<Rightarrow> if c = CHR ''-'' then (True, cs) else if c = CHR ''+'' then (False, cs)
                 else (False, s))"

fun underscores_ok :: "char \<Rightarrow> string \<Rightarrow> bool" where
  "underscores_ok prev [] = (prev \<noteq> CHR ''_'')"
| "underscores_ok prev (c # cs) =
     ((if c = CHR ''_'' then is_digit prev else if prev = CHR ''_'' then is_digit c else True)
      \<and> underscores_ok c cs)"

definition parse_exponent :: "string \<Rightarrow> int option" where
  "parse_exponent s =
     (if s = [] then Some 0
      else if hd s = CHR ''e'' \<or> hd s = CHR ''E'' then
        (let (neg, ds) = split_sign (tl s)
         in if ds \<noteq> [] \<and> list_all is_digit ds
            then Some (if neg then - digits_val ds else digits_val ds) else None)
      else None)"

definition parse_decimal :: "string \<Rightarrow> rat option" where
  "parse_decimal s =
     (let ip = takeWhile is_digit s; r1 = dropWhile is_digit s;
          dot = (r1 \<noteq> [] \<and> hd r1 = CHR ''.'');
          fp = (if dot then takeWhile is_digit (tl r1) else []);
          r2 = (if dot then dropWhile is_digit (tl r1) else r1)
      in if ip = [] \<and> fp = [] then None
         else case parse_exponent r2 of None \<Rightarrow> None
              | Some e \<Rightarrow> Some (of_int (digits_val (ip @ fp)) * pow10 (e - int (length fp))))"

definition float_of_str :: "string \<Rightarrow> exn + pyfloat" where
  "float_of_str s0 =
     (let s = rev (dropWhile float_isspace (rev (dropWhile float_isspace s0)));
          (neg, body) = split_sign s;
          low = map ascii_lower body
      in if low = ''inf'' \<or> low = ''infinity'' then Inr (if neg then NInf else PInf)
         else if low = ''nan'' then Inr NaN
         else if \<not> underscores_ok (CHR 0x00) s then Inl ValueError
         else case parse_decimal (filter (\<lambda>c. c \<noteq> CHR ''_'') body) of
                None \<Rightarrow> Inl ValueError
              | Some q \<Rightarrow> Inr (to_double neg q))"

text \<open>\<^verbatim>\<open>float(x)\<close> for a value: the \<^verbatim>\<open>try\<close> of the price coercion calls it.\<close>

fun py_float :: "pyval \<Rightarrow> exn + pyfloat" where
  "py_float PNone = Inl TypeError"
| "py_float (PBool b) = Inr (Finite (if b then 1 else 0))"
| "py_float (PInt n) = float_of_int n"
| "py_float (PFloat f) = Inr f"
| "py_float (PStr s) = float_of_str s"
| "py_float (PList xs) = Inl TypeError"
| "py_float (PDict kvs) = Inl TypeError"

section \<open>Text of a value\<close>

text \<open>
  \<^verbatim>\<open>str(x)\<close> is the text itself for a string and \<^verbatim>\<open>repr(x)\<close> for every other value. The
  \<^verbatim>\<open>repr\<close> of a float is the shortest decimal that reads back as the same float, in
  exponent form when its decimal exponent is 16 or more, or less than \<open>-4\<close>; the \<^verbatim>\<open>repr\<close>
  of a string quotes it and escapes what does not print.
\<close>

fun ndigits :: "int \<Rightarrow> int" where
  "ndigits n = (if n < 10 then 1 else 1 + ndigits (n div 10))"

declare ndigits.simps [simp del]

fun digits_of :: "int \<Rightarrow> string" where
  "digits_of n =
     (if n < 10 then [char_of (48 + n)] else digits_of (n div 10) @ [char_of (48 + n mod 10)])"

declare digits_of.simps [simp del]

definition int_repr :: "int \<Rightarrow> string" where
  "int_repr n = (if n < 0 then CHR ''-'' # digits_of (- n) else digits_of n)"

definition floor_log10 :: "rat \<Rightarrow> int" where
  "floor_log10 q = (if 1 \<le> q then ndigits \<lfloor>q\<rfloor> - 1 else - ndigits (\<lceil>1 / q\<rceil> - 1))"

text \<open>The candidate with \<open>n\<close> significant digits that reads back as \<open>q\<close>, if one does.\<close>

definition candidate :: "rat \<Rightarrow> int \<Rightarrow> int \<Rightarrow> int option" where
  "candidate q e n =
     (let u = pow10 (e - n + 1); x = q / u; lo = \<lfloor>x\<rfloor>; hi = lo + 1;
          oklo = (round_nearest (of_int lo * u) = q);
          okhi = (round_nearest (of_int hi * u) = q);
          dlo = x - of_int lo; dhi = of_int hi - x
      in if oklo \<and> okhi then
           Some (if dlo < dhi then lo else if dhi < dlo then hi else if even lo then lo else hi)
         else if oklo then Some lo
         else if okhi then Some hi
         else None)"

fun shortest_from :: "rat \<Rightarrow> int \<Rightarrow> nat \<Rightarrow> nat \<Rightarrow> int \<times> int" where
  "shortest_from q e n 0 = (round_half_even (q / pow10 (e - int n + 1)), int n)"
| "shortest_from q e n (Suc k) =
     (case candidate q e (int n) of
        Some c \<Rightarrow> (c, int n)
      | None \<Rightarrow> shortest_from q e (Suc n) k)"

fun strip_zeros :: "string \<Rightarrow> string" where
  "strip_zeros ds = rev (dropWhile (\<lambda>c. c = CHR ''0'') (rev ds))"

definition shortest_digits :: "rat \<Rightarrow> string \<times> int" where
  "shortest_digits q =
     (let e = floor_log10 q; (c, n) = shortest_from q e 1 16;
          ds = digits_of c
      in (strip_zeros ds, e + 1 + (int (length ds) - n)))"

definition float_repr :: "pyfloat \<Rightarrow> string" where
  "float_repr f =
     (case f of
        PInf \<Rightarrow> ''inf'' | NInf \<Rightarrow> ''-inf'' | NaN \<Rightarrow> ''nan'' | NegZero \<Rightarrow> ''-0.0''
      | Finite q \<Rightarrow>
          if q = 0 then ''0.0''
          else let (ds, decpt) = shortest_digits \<bar>q\<bar>; sgn = (if q < 0 then ''-'' else '''');
                   len = int (length ds)
               in if - 4 < decpt \<and> decpt \<le> 16 then
                    (if decpt \<le> 0 then sgn @ ''0.'' @ replicate (nat (- decpt)) (CHR ''0'') @ ds
                     else if len \<le> decpt then sgn @ ds @ replicate (nat (decpt - len)) (CHR ''0'') @ ''.0''
                     else sgn @ take (nat decpt) ds @ ''.'' @ drop (nat decpt) ds)
                  else
                    (let x = decpt - 1; xs = digits_of \<bar>x\<bar>
                     in sgn @ take 1 ds @ (if 1 < len then ''.'' @ drop 1 ds else '''') @ ''e''
                        @ (if x < 0 then ''-'' else ''+'') @ (if length xs < 2 then ''0'' @ xs else xs)))"

definition hex_digit :: "nat \<Rightarrow> char" where
  "hex_digit n = (if n < 10 then char_of (48 + n) else char_of (87 + n))"

definition printable :: "char \<Rightarrow> bool" where
  "printable c = (let n = (of_char c :: nat) in (32 \<le> n \<and> n < 127) \<or> (161 \<le> n \<and> n \<noteq> 173))"

definition repr_char :: "char \<Rightarrow> char \<Rightarrow> string" where
  "repr_char quote c =
     (if c = quote \<or> c = CHR 0x5C then [CHR 0x5C, c]
      else if c = CHR 0x09 then [CHR 0x5C, CHR ''t'']
      else if c = CHR 0x0A then [CHR 0x5C, CHR ''n'']
      else if c = CHR 0x0D then [CHR 0x5C, CHR ''r'']
      else if printable c then [c]
      else [CHR 0x5C, CHR ''x'', hex_digit (of_char c div 16), hex_digit (of_char c mod 16)])"

definition str_repr :: "string \<Rightarrow> string" where
  "str_repr s =
     (let quote = (if CHR 0x27 \<in> set s \<and> CHR 0x22 \<notin> set s then CHR 0x22 else CHR 0x27)
      in quote # concat (map (repr_char quote) s) @ [quote])"

fun py_repr :: "pyval \<Rightarrow> string" where
  "py_repr PNone = ''None''"
| "py_repr (PBool b) = (if b then ''True'' else ''False'')"
| "py_repr (PInt n) = int_repr n"
| "py_repr (PFloat f) = float_repr f"
| "py_repr (PStr s) = str_repr s"
| "py_repr (PList xs) = ''['' @ py_join '', '' (map py_repr xs) @ '']''"
| "py_repr (PDict kvs) =
     ''{'' @ py_join '', '' (map (\<lambda>kv. str_repr (fst kv) @ '': '' @ py_repr (snd kv)) kvs) @ ''}''"

definition py_str :: "pyval \<Rightarrow> string" where
  "py_str v = (case v of PStr s \<Rightarrow> s | _ \<Rightarrow> py_repr v)"

section \<open>json.loads\<close>

text \<open>
  The model of \<^verbatim>\<open>json.loads\<close>: a scan into tokens, then a stack machine over the tokens,
  one frame for every array or object that is open. It accepts what Python's decoder
  accepts (the literals \<^verbatim>\<open>NaN\<close>, \<^verbatim>\<open>Infinity\<close> and \<^verbatim>\<open>-Infinity\<close> included, a repeated key
  keeping its first place and its last value) and answers \<^verbatim>\<open>JSONDecodeError\<close> to
  everything else. Outside the model: an escape \<^verbatim>\<open>\uXXXX\<close> above \<^verbatim>\<open>00FF\<close>, which the 8-bit
  characters cannot hold and the scan refuses, and the limits of the interpreter (the
  digits of an integer, the depth of the nesting).
\<close>

datatype token = TLBrace | TRBrace | TLBracket | TRBracket | TColon | TComma | TValue pyval

definition hex_val :: "char \<Rightarrow> nat option" where
  "hex_val c =
     (let n = (of_char c :: nat)
      in if 48 \<le> n \<and> n \<le> 57 then Some (n - 48)
         else if 97 \<le> n \<and> n \<le> 102 then Some (n - 87)
         else if 65 \<le> n \<and> n \<le> 70 then Some (n - 55)
         else None)"

definition hex4 :: "string \<Rightarrow> nat option" where
  "hex4 s =
     (if length s = 4 \<and> list_all (\<lambda>c. hex_val c \<noteq> None) s
      then Some (foldl (\<lambda>a c. 16 * a + (case hex_val c of Some v \<Rightarrow> v | None \<Rightarrow> 0)) 0 s)
      else None)"

definition unescape :: "char \<Rightarrow> char option" where
  "unescape e =
     (if e = CHR 0x22 \<or> e = CHR 0x5C \<or> e = CHR ''/'' then Some e
      else if e = CHR ''b'' then Some (CHR 0x08)
      else if e = CHR ''f'' then Some (CHR 0x0C)
      else if e = CHR ''n'' then Some (CHR 0x0A)
      else if e = CHR ''r'' then Some (CHR 0x0D)
      else if e = CHR ''t'' then Some (CHR 0x09)
      else None)"

text \<open>
  A string, from behind its opening quote: the text and what follows the closing quote.
  Control characters are refused, as the strict decoder does.
\<close>

fun scanstring :: "string \<Rightarrow> (string \<times> string) option" where
  "scanstring [] = None"
| "scanstring (c # cs) =
     (if c = CHR 0x22 then Some ([], cs)
      else if c = CHR 0x5C then
        (case cs of
           [] \<Rightarrow> None
         | e # cs' \<Rightarrow>
             if e = CHR ''u'' then
               (case hex4 (take 4 cs') of
                  None \<Rightarrow> None
                | Some n \<Rightarrow>
                    if n < 256 then map_option (apfst ((#) (char_of n))) (scanstring (drop 4 cs'))
                    else None)
             else
               (case unescape e of
                  None \<Rightarrow> None
                | Some ch \<Rightarrow> map_option (apfst ((#) ch)) (scanstring cs')))
      else if (of_char c :: nat) < 32 then None
      else map_option (apfst ((#) c)) (scanstring cs))"

text \<open>
  A scalar is read as the longest run of letters, digits, signs and points; the run is a
  literal or a number as a whole, or the text is not JSON. (Python reads the longest
  prefix that is a number and then refuses the character that follows it: the same
  texts are accepted.)
\<close>

definition json_ws :: "char \<Rightarrow> bool" where
  "json_ws c = (c = CHR '' '' \<or> c = CHR 0x09 \<or> c = CHR 0x0A \<or> c = CHR 0x0D)"

definition is_alpha :: "char \<Rightarrow> bool" where
  "is_alpha c = (let n = (of_char c :: nat) in (65 \<le> n \<and> n \<le> 90) \<or> (97 \<le> n \<and> n \<le> 122))"

definition wordchar :: "char \<Rightarrow> bool" where
  "wordchar c = (is_alpha c \<or> is_digit c \<or> c = CHR ''+'' \<or> c = CHR ''-'' \<or> c = CHR ''.'')"

definition json_number :: "string \<Rightarrow> pyval option" where
  "json_number w =
     (let (neg, u) = (if w \<noteq> [] \<and> hd w = CHR ''-'' then (True, tl w) else (False, w));
          ip = takeWhile is_digit u; r1 = dropWhile is_digit u;
          dot = (r1 \<noteq> [] \<and> hd r1 = CHR ''.'');
          fp = (if dot then takeWhile is_digit (tl r1) else []);
          r2 = (if dot then dropWhile is_digit (tl r1) else r1)
      in if ip = [] \<or> (1 < length ip \<and> hd ip = CHR ''0'') then None
         else if dot \<and> fp = [] then None
         else if \<not> dot \<and> r2 = [] then Some (PInt (if neg then - digits_val ip else digits_val ip))
         else if r2 \<noteq> [] \<and> parse_exponent r2 = None then None
         else (case float_of_str w of Inr f \<Rightarrow> Some (PFloat f) | Inl e \<Rightarrow> None))"

definition scalar :: "string \<Rightarrow> pyval option" where
  "scalar w =
     (if w = ''null'' then Some PNone
      else if w = ''true'' then Some (PBool True)
      else if w = ''false'' then Some (PBool False)
      else if w = ''NaN'' then Some (PFloat NaN)
      else if w = ''Infinity'' then Some (PFloat PInf)
      else if w = ''-Infinity'' then Some (PFloat NInf)
      else json_number w)"

lemma scanstring_shorter: "scanstring cs = Some (s, rest) \<Longrightarrow> length rest < length cs"
proof (induction cs arbitrary: s rest rule: scanstring.induct)
  case 1
  then show ?case by simp
next
  case (2 c cs)
  then show ?case
    by (auto split: if_splits list.splits option.splits simp: less_Suc_eq) force+
qed

function lex :: "string \<Rightarrow> token list option" where
  "lex [] = Some []"
| "lex (c # cs) =
     (if json_ws c then lex cs
      else if c = CHR ''{'' then map_option ((#) TLBrace) (lex cs)
      else if c = CHR ''}'' then map_option ((#) TRBrace) (lex cs)
      else if c = CHR ''['' then map_option ((#) TLBracket) (lex cs)
      else if c = CHR '']'' then map_option ((#) TRBracket) (lex cs)
      else if c = CHR '':'' then map_option ((#) TColon) (lex cs)
      else if c = CHR '','' then map_option ((#) TComma) (lex cs)
      else if c = CHR 0x22 then
        (case scanstring cs of
           None \<Rightarrow> None
         | Some (s, rest) \<Rightarrow> map_option ((#) (TValue (PStr s))) (lex rest))
      else if wordchar c then
        (case scalar (c # takeWhile wordchar cs) of
           None \<Rightarrow> None
         | Some v \<Rightarrow> map_option ((#) (TValue v)) (lex (dropWhile wordchar cs)))
      else None)"
  by pat_completeness auto
termination
  by (relation "measure length") (auto simp: less_Suc_eq_le length_dropWhile_le dest: scanstring_shorter)

text \<open>
  \<open>value_expected\<close> reads the start of a value; \<open>after_value\<close> puts a finished value
  into the innermost open array or object, or returns it at the end of the text.
\<close>

datatype frame = FList "pyval list" | FDict pydict string

fun value_expected :: "frame list \<Rightarrow> token list \<Rightarrow> pyval option"
  and after_value :: "pyval \<Rightarrow> frame list \<Rightarrow> token list \<Rightarrow> pyval option" where
  "value_expected st [] = None"
| "value_expected st (t # rest) =
     (case t of
        TValue v \<Rightarrow> after_value v st rest
      | TLBracket \<Rightarrow>
          (case rest of
             TRBracket # rest' \<Rightarrow> after_value (PList []) st rest'
           | _ \<Rightarrow> value_expected (FList [] # st) rest)
      | TLBrace \<Rightarrow>
          (case rest of
             TRBrace # rest' \<Rightarrow> after_value (PDict []) st rest'
           | TValue (PStr k) # TColon # rest' \<Rightarrow> value_expected (FDict [] k # st) rest'
           | _ \<Rightarrow> None)
      | _ \<Rightarrow> None)"
| "after_value v [] toks = (if toks = [] then Some v else None)"
| "after_value v (FList xs # st) toks =
     (case toks of
        TComma # rest \<Rightarrow> value_expected (FList (xs @ [v]) # st) rest
      | TRBracket # rest \<Rightarrow> after_value (PList (xs @ [v])) st rest
      | _ \<Rightarrow> None)"
| "after_value v (FDict d k # st) toks =
     (case toks of
        TComma # TValue (PStr k') # TColon # rest \<Rightarrow>
          value_expected (FDict (AList.update k v d) k' # st) rest
      | TRBrace # rest \<Rightarrow> after_value (PDict (AList.update k v d)) st rest
      | _ \<Rightarrow> None)"

definition json_loads :: "string \<Rightarrow> exn + pyval" where
  "json_loads s =
     (case lex s of
        None \<Rightarrow> Inl JSONDecodeError
      | Some toks \<Rightarrow>
          (case value_expected [] toks of None \<Rightarrow> Inl JSONDecodeError | Some v \<Rightarrow> Inr v))"

section \<open>The response parser and the field normalizer\<close>

text \<open>
  Lines 114 to 124 of \<^verbatim>\<open>extract_products_from_image\<close>: strict parsing, and when it
  raises \<^verbatim>\<open>JSONDecodeError\<close> the recovery on the slice from the first \<^verbatim>\<open>{\<close> to the last
  \<^verbatim>\<open>}\<close> of the stripped text, whose own \<^verbatim>\<open>json.loads\<close> is not guarded.
\<close>

definition parse_payload :: "string \<Rightarrow> exn + pyval" where
  "parse_payload content =
     (case json_loads content of
        Inr payload \<Rightarrow> Inr payload
      | Inl e \<Rightarrow>
          if e = JSONDecodeError then
            (let content_stripped = py_strip content;
                 start = py_find content_stripped ''{'';
                 end' = py_rfind content_stripped ''}''
             in if start \<noteq> - 1 \<and> end' \<noteq> - 1
                then json_loads (py_slice content_stripped start (end' + 1))
                else Inr (PDict [(''products'', PList [])]))
          else Inl e)"

text \<open>
  Line 126, \<^verbatim>\<open>payload.get("products", []) or []\<close>: only a dictionary has \<^verbatim>\<open>get\<close>.
\<close>

definition get_products :: "pyval \<Rightarrow> exn + pyval" where
  "get_products payload =
     (case payload of
        PDict d \<Rightarrow> Inr (py_or (dict_get_default d ''products'' (PList [])) (PList []))
      | _ \<Rightarrow> Inl AttributeError)"

text \<open>
  What \<^verbatim>\<open>for p in products\<close> runs over: the elements of a list, the keys of a
  dictionary, the characters of a string; a number or \<^verbatim>\<open>True\<close> raises \<^verbatim>\<open>TypeError\<close>.
\<close>

fun py_iter :: "pyval \<Rightarrow> exn + pyval list" where
  "py_iter (PList xs) = Inr xs"
| "py_iter (PDict kvs) = Inr (map (\<lambda>kv. PStr (fst kv)) kvs)"
| "py_iter (PStr s) = Inr (map (\<lambda>c. PStr [c]) s)"
| "py_iter v = Inl TypeError"

text \<open>
  Lines 135 to 144, the price: \<^verbatim>\<open>float\<close> of the price field unless that is \<^verbatim>\<open>None\<close>; on
  any exception, \<^verbatim>\<open>float\<close> of the cleaned text of the price field or of the textual
  price; on a second exception, \<^verbatim>\<open>None\<close>.
\<close>

definition coerce_price :: "pyval \<Rightarrow> pyval \<Rightarrow> pyval" where
  "coerce_price preco_brl_val preco_brl_texto =
     (if preco_brl_val = PNone then PNone
      else case py_float preco_brl_val of
             Inr f \<Rightarrow> PFloat f
           | Inl e \<Rightarrow>
               (let preco_str =
                      py_replace
                        (py_replace
                           (py_str (py_or (py_or preco_brl_val preco_brl_texto) (PStr '''')))
                           ''R$'' '''')
                        '' '' '''';
                    preco_str = py_replace (py_replace preco_str ''.'' '''') '','' ''.''
                in case float_of_str preco_str of Inr f \<Rightarrow> PFloat f | Inl e' \<Rightarrow> PNone))"

text \<open>Lines 146 to 150, the conditions.\<close>

definition normalize_condicoes :: "pyval \<Rightarrow> pyval" where
  "normalize_condicoes raw =
     (let condicoes = py_or raw (PList []);
          condicoes = (if is_dict condicoes then PList [condicoes] else condicoes);
          condicoes = (if \<not> is_list condicoes then PList [] else condicoes)
      in condicoes)"

text \<open>
  The body of the loop, lines 130 to 161, for one product: \<^verbatim>\<open>p.get\<close> raises
  \<^verbatim>\<open>AttributeError\<close> on a product that is not a dictionary; otherwise the record is built.
\<close>

definition normalize_product :: "pyval \<Rightarrow> exn + pyval" where
  "normalize_product p =
     (case p of
        PDict d \<Rightarrow>
          (let marca_nome =
                 py_or (py_or (py_or (dict_get d ''marca_nome'') (dict_get d ''marca+nome''))
                          (dict_get d ''nome'')) (PStr '''');
               marca = py_or (dict_get d ''marca'') (PStr '''');
               produto = py_or (dict_get d ''produto'') (PStr '''');
               preco_brl_val = dict_get d ''preco_brl'';
               preco_brl_texto =
                 py_or (py_or (dict_get d ''preco_brl_texto'') (dict_get d ''preco_texto''))
                   (PStr '''');
               preco_brl = coerce_price preco_brl_val preco_brl_texto;
               condicoes = normalize_condicoes (dict_get d ''condicoes'')
           in Inr (PDict
                [(''marca_nome'', marca_nome),
                 (''marca'', marca),
                 (''produto'', produto),
                 (''preco_brl'', preco_brl),
                 (''preco_brl_texto'', preco_brl_texto),
                 (''condicoes'', condicoes)]))
      | _ \<Rightarrow> Inl AttributeError)"

fun normalize_all :: "pyval list \<Rightarrow> exn + pyval list" where
  "normalize_all [] = Inr []"
| "normalize_all (p # ps) =
     (case normalize_product p of
        Inl e \<Rightarrow> Inl e
      | Inr r \<Rightarrow> (case normalize_all ps of Inl e \<Rightarrow> Inl e | Inr rs \<Rightarrow> Inr (r # rs)))"

text \<open>
  The whole function after the model call, and the function itself: the model call is a
  parameter, which raises or returns the content of the first choice, a text or \<^verbatim>\<open>None\<close>
  (on which \<^verbatim>\<open>json.loads\<close> raises \<^verbatim>\<open>TypeError\<close>).
\<close>

definition normalize_payload :: "pyval \<Rightarrow> exn + pyval list" where
  "normalize_payload payload =
     (case get_products payload of
        Inl e \<Rightarrow> Inl e
      | Inr products \<Rightarrow>
          (case py_iter products of Inl e \<Rightarrow> Inl e | Inr ps \<Rightarrow> normalize_all ps))"

definition extract_products_from_content :: "string \<Rightarrow> exn + pyval list" where
  "extract_products_from_content content =
     (case parse_payload content of
        Inl e \<Rightarrow> Inl e
      | Inr payload \<Rightarrow> normalize_payload payload)"

definition extract_products_from_image ::
  "(string \<Rightarrow> 'b \<Rightarrow> string \<Rightarrow> exn + string option) \<Rightarrow> string \<Rightarrow> 'b \<Rightarrow> string
     \<Rightarrow> exn + pyval list" where
  "extract_products_from_image client model image_bytes filename =
     (case client model image_bytes filename of
        Inl e \<Rightarrow> Inl e
      | Inr None \<Rightarrow> Inl TypeError
      | Inr (Some content) \<Rightarrow> extract_products_from_content content)"

section \<open>The result aggregator\<close>

text \<open>
  Lines 169 to 179 of \<^verbatim>\<open>build_dataframe\<close>: the conditions of a product as one text. An
  f-string formats a value as \<^verbatim>\<open>str\<close> does.
\<close>

definition render_condicao :: "pyval \<Rightarrow> string" where
  "render_condicao c =
     (case c of
        PDict d \<Rightarrow>
          py_str (py_or (dict_get d ''tipo'') (PStr ''outro'')) @ '': ''
          @ py_str (py_or (dict_get d ''valor'') (PStr ''''))
      | _ \<Rightarrow> [])"

definition condicoes_str :: "pydict \<Rightarrow> string" where
  "condicoes_str product =
     (let condicoes = py_or (dict_get product ''condicoes'') (PList [])
      in case condicoes of
           PList cs \<Rightarrow> py_join ''; '' (map render_condicao (filter is_dict cs))
         | _ \<Rightarrow> py_str condicoes)"

definition build_record :: "string \<Rightarrow> pydict \<Rightarrow> pydict" where
  "build_record filename product =
     [(''arquivo'', PStr filename),
      (''marca_nome'', dict_get product ''marca_nome''),
      (''marca'', dict_get product ''marca''),
      (''produto'', dict_get product ''produto''),
      (''preco_brl'', dict_get product ''preco_brl''),
      (''preco_brl_texto'', dict_get product ''preco_brl_texto''),
      (''condicoes'', PStr (condicoes_str product))]"

text \<open>
  \<^verbatim>\<open>build_dataframe\<close> hands the records to \<^verbatim>\<open>pandas.DataFrame.from_records\<close> and keeps,
  in the order of \<open>desired\<close>, the columns that the frame has: the keys of the records.
  The frame is modelled by its columns and its records; what pandas does to a cell is
  outside the model.
\<close>

record dataframe =
  columns :: "string list"
  records :: "pydict list"

definition build_dataframe :: "(string \<times> pydict) list \<Rightarrow> dataframe" where
  "build_dataframe rows =
     (let records = map (\<lambda>(filename, product). build_record filename product) rows;
          df_columns = remdups (concat (map (map fst) records));
          desired = [''arquivo'', ''marca_nome'', ''marca'', ''produto'', ''preco_brl'',
                     ''preco_brl_texto'', ''condicoes'']
      in \<lparr>columns = filter (\<lambda>c. c \<in> set df_columns) desired, records = records\<rparr>)"

section \<open>The batch loop\<close>

text \<open>
  The loop of \<^verbatim>\<open>main\<close>, lines 317 to 324, with what it has collected and what it has
  reported (\<^verbatim>\<open>st.error\<close>) as its state.
\<close>

fun process_images ::
  "(string \<Rightarrow> 'b \<Rightarrow> string \<Rightarrow> exn + string option) \<Rightarrow> string \<Rightarrow> (string \<times> 'b) list
     \<Rightarrow> (string \<times> pyval) list \<times> (string \<times> exn) list
     \<Rightarrow> (string \<times> pyval) list \<times> (string \<times> exn) list" where
  "process_images client model [] (collected, reported) = (collected, reported)"
| "process_images client model ((filename, img_bytes) # rest) (collected, reported) =
     (case extract_products_from_image client model img_bytes filename of
        Inr products \<Rightarrow>
          process_images client model rest
            (collected @ map (\<lambda>p. (filename, p)) products, reported)
      | Inl ex \<Rightarrow>
          process_images client model rest (collected, reported @ [(filename, ex)]))"

section \<open>Definitions that follow the specification\<close>

text \<open>
  The definitions of this section are written from the words of the specification, or
  name the inputs of its examples; the theorems below compare them with the
  definitions above, which are written from the code.
\<close>

text \<open>
  The recovery parse of the specification: ``locate the first \<^verbatim>\<open>{\<close> and the last
  \<^verbatim>\<open>}\<close> in the text'' and take ``the substring between them (inclusive)''.
\<close>

definition brace_span :: "string \<Rightarrow> string" where
  "brace_span s =
     rev (dropWhile (\<lambda>c. c \<noteq> CHR ''}'') (rev (dropWhile (\<lambda>c. c \<noteq> CHR ''{'') s)))"

text \<open>
  The locale cleanup of the specification: ``strip a currency marker and whitespace,
  remove grouping-dot separators, replace a decimal comma with a decimal point''. The
  marker is \<^verbatim>\<open>R$\<close>; whitespace is what \<^verbatim>\<open>str.isspace\<close> accepts.
\<close>

fun strip_marker :: "string \<Rightarrow> string" where
  "strip_marker (a # b # cs) =
     (if a = CHR ''R'' \<and> b = CHR ''$'' then strip_marker cs else a # strip_marker (b # cs))"
| "strip_marker cs = cs"

definition locale_cleanup :: "string \<Rightarrow> string" where
  "locale_cleanup s =
     map (\<lambda>c. if c = CHR '','' then CHR ''.'' else c)
       (filter (\<lambda>c. c \<noteq> CHR ''.'') (filter (\<lambda>c. \<not> py_isspace c) (strip_marker s)))"

text \<open>
  The cleanup of claim C4 as amended: of the whitespace, only the space character is
  stripped.
\<close>

definition space_cleanup :: "string \<Rightarrow> string" where
  "space_cleanup s =
     map (\<lambda>c. if c = CHR '','' then CHR ''.'' else c)
       (filter (\<lambda>c. c \<noteq> CHR ''.'') (filter (\<lambda>c. c \<noteq> CHR '' '') (strip_marker s)))"




text \<open>
  What one image adds to the table: its normalized products under its file name when its
  processing returns, nothing when it raises.
\<close>

definition records_of ::
  "(string \<Rightarrow> 'b \<Rightarrow> string \<Rightarrow> exn + string option) \<Rightarrow> string \<Rightarrow> string \<times> 'b
     \<Rightarrow> (string \<times> pyval) list" where
  "records_of client model img =
     (case extract_products_from_image client model (snd img) (fst img) of
        Inr products \<Rightarrow> map (\<lambda>p. (fst img, p)) products
      | Inl ex \<Rightarrow> [])"

text \<open>
  A model call for the batch example: it raises on \<^verbatim>\<open>b.png\<close> and answers every other
  image with one product.
\<close>

definition demo_client :: "string \<Rightarrow> nat list \<Rightarrow> string \<Rightarrow> exn + string option" where
  \<open>demo_client model image_bytes filename =
     (if filename = ''b.png'' then Inl APIError
      else Inr (Some ''{"products": [{"marca_nome": "X"}]}''))\<close>

section \<open>Properties of the pipeline\<close>

subsection \<open>The record the field normalizer builds\<close>

lemma dict_get_Cons:
  "dict_get ((k, v) # d) k' = (if k = k' then v else dict_get d k')"
  by (simp add: dict_get_def dict_get_default_def)

lemma dict_get_Nil: "dict_get [] k = PNone"
  by (simp add: dict_get_def dict_get_default_def)

lemma normalize_condicoes_cases:
  "normalize_condicoes v =
     (case v of
        PDict kvs \<Rightarrow> if kvs = [] then PList [] else PList [PDict kvs]
      | PList xs \<Rightarrow> PList xs
      | _ \<Rightarrow> PList [])"
  by (cases v) (auto simp: normalize_condicoes_def py_or_def Let_def)

lemma normalize_product_PDict:
  "normalize_product (PDict d) =
     Inr (PDict
       [(''marca_nome'',
           py_or (py_or (py_or (dict_get d ''marca_nome'') (dict_get d ''marca+nome''))
                    (dict_get d ''nome'')) (PStr '''')),
        (''marca'', py_or (dict_get d ''marca'') (PStr '''')),
        (''produto'', py_or (dict_get d ''produto'') (PStr '''')),
        (''preco_brl'',
           coerce_price (dict_get d ''preco_brl'')
             (py_or (py_or (dict_get d ''preco_brl_texto'') (dict_get d ''preco_texto''))
                (PStr ''''))),
        (''preco_brl_texto'',
           py_or (py_or (dict_get d ''preco_brl_texto'') (dict_get d ''preco_texto''))
             (PStr '''')),
        (''condicoes'', normalize_condicoes (dict_get d ''condicoes''))])"
  by (simp add: normalize_product_def Let_def)

subsection \<open>The price: the chain of replacements of the code as a filter and a map\<close>

lemma py_replace_delete_char:
  "py_replace s [c] [] = filter (\<lambda>x. x \<noteq> c) s"
proof (induction s)
  case Nil
  show ?case by (subst py_replace.simps) simp
next
  case (Cons x xs)
  show ?case
    by (subst py_replace.simps) (simp add: Cons.IH)
qed

lemma py_replace_char_by_char:
  "py_replace s [c] [d] = map (\<lambda>x. if x = c then d else x) s"
proof (induction s)
  case Nil
  show ?case by (subst py_replace.simps) simp
next
  case (Cons x xs)
  show ?case
    by (subst py_replace.simps) (simp add: Cons.IH)
qed

lemma py_replace_marker: "py_replace s ''R$'' [] = strip_marker s"
proof (induction s rule: strip_marker.induct)
  case (1 a b cs)
  show ?case
    by (subst py_replace.simps) (use 1 in auto)
qed ((subst py_replace.simps, simp)+)

lemma cleanup_chain:
  "py_replace (py_replace (py_replace (py_replace s ''R$'' []) '' '' []) ''.'' []) '','' ''.''
     = space_cleanup s"
  by (simp add: py_replace_marker py_replace_delete_char py_replace_char_by_char
      space_cleanup_def)

lemma coerce_price_fallback:
  assumes "v \<noteq> PNone" and "py_float v = Inl e"
  shows "coerce_price v texto =
     (case float_of_str (space_cleanup (py_str (py_or (py_or v texto) (PStr '''')))) of
        Inr f \<Rightarrow> PFloat f
      | Inl e' \<Rightarrow> PNone)"
  using assms by (simp add: coerce_price_def cleanup_chain Let_def)

lemma coerce_price_float: "coerce_price (PFloat f) texto = PFloat f"
  by (simp add: coerce_price_def)

lemma texto_or_empty:
  "py_or (py_or v (py_or t (PStr ''''))) (PStr '''') = (if truthy v then v else py_or t (PStr ''''))"
  by (simp add: py_or_def)

text \<open>Evaluation of \<^verbatim>\<open>float\<close> and of \<^verbatim>\<open>json.loads\<close> on the texts of the examples.\<close>

lemmas float_parse_defs =
  float_of_str_def float_isspace_def split_sign_def ascii_lower_def is_digit_def
  parse_decimal_def parse_exponent_def digits_val_def pow10_def double_def Let_def

lemmas json_defs =
  json_loads_def json_ws_def wordchar_def is_alpha_def scalar_def json_number_def
  float_parse_defs

text \<open>
  Three doubles: the binary64 values nearest to 29.9, 1234.56 and 19.9, which Python
  prints as \<^verbatim>\<open>29.9\<close>, \<^verbatim>\<open>1234.56\<close> and \<^verbatim>\<open>19.9\<close>.
\<close>

lemma round_values:
  "round_nearest (299 / 10) = 4208050901824307 / 140737488355328"
  "round_nearest (30864 / 25) = 2714826150374277 / 2199023255552"
  "round_nearest (199 / 10) = 2800676018271027 / 140737488355328"
  by code_simp+

lemma double_values:
  "double (2990 / 100) = Finite (4208050901824307 / 140737488355328)"
  "double (123456 / 100) = Finite (2714826150374277 / 2199023255552)"
  "double (199 / 10) = Finite (2800676018271027 / 140737488355328)"
  by (simp_all add: double_def to_double_def round_values pow2_def Let_def)

lemma float_examples:
  "float_of_str ''R$ 1.234,56'' = Inl ValueError"
  "float_of_str ''1234.56'' = Inr (Finite (2714826150374277 / 2199023255552))"
  "float_of_str ''sob consulta'' = Inl ValueError"
  "float_of_str ''sobconsulta'' = Inl ValueError"
  "float_of_str '''' = Inl ValueError"
  "float_of_str ''R$ 29,90'' = Inl ValueError"
  "float_of_str ''29.90'' = Inr (Finite (4208050901824307 / 140737488355328))"
  "float_of_str (''R$ 1'' @ [CHR 0x09] @ ''234,56'') = Inl ValueError"
  "float_of_str (''1'' @ [CHR 0x09] @ ''234.56'') = Inl ValueError"
  by (simp_all add: float_parse_defs double_values [unfolded double_def, simplified])

lemma cleanup_examples:
  "space_cleanup ''R$ 1.234,56'' = ''1234.56''"
  "space_cleanup ''sob consulta'' = ''sobconsulta''"
  "space_cleanup ''R$ 29,90'' = ''29.90''"
  by (simp_all add: space_cleanup_def)

subsection \<open>The recovery parse: the slice the code takes is the span of the specification\<close>

lemma find_at_char:
  "find_at [c] s i = (if c \<in> set s then i + int (length (takeWhile (\<lambda>x. x \<noteq> c) s)) else - 1)"
  by (induction s arbitrary: i) auto

lemma rfind_at_char:
  "rfind_at [c] s i best =
     (if c \<in> set s
      then i + int (length s) - 1 - int (length (takeWhile (\<lambda>x. x \<noteq> c) (rev s)))
      else best)"
proof (induction s arbitrary: i best)
  case Nil
  then show ?case by simp
next
  case (Cons x xs)
  show ?case
  proof (cases "c \<in> set xs")
    case True
    then have "takeWhile (\<lambda>x. x \<noteq> c) (rev xs @ [x]) = takeWhile (\<lambda>x. x \<noteq> c) (rev xs)"
      by (intro takeWhile_append1 [of c]) auto
    then show ?thesis using True by (simp add: Cons.IH)
  next
    case False
    then have "takeWhile (\<lambda>x. x \<noteq> c) (rev xs @ [x])
                 = rev xs @ takeWhile (\<lambda>x. x \<noteq> c) [x]"
      by (intro takeWhile_append2) auto
    then show ?thesis using False by (auto simp: Cons.IH)
  qed
qed

lemma py_find_char:
  "py_find s [c] = (if c \<in> set s then int (length (takeWhile (\<lambda>x. x \<noteq> c) s)) else - 1)"
  by (simp add: py_find_def find_at_char)

lemma py_rfind_char:
  "py_rfind s [c] =
     (if c \<in> set s then int (length s) - 1 - int (length (takeWhile (\<lambda>x. x \<noteq> c) (rev s)))
      else - 1)"
  by (simp add: py_rfind_def rfind_at_char)

lemma takeWhile_rev_less:
  "c \<in> set s \<Longrightarrow> length (takeWhile (\<lambda>x. x \<noteq> c) (rev s)) < length s"
proof -
  assume "c \<in> set s"
  then have "takeWhile (\<lambda>x. x \<noteq> c) (rev s) \<noteq> rev s"
    by (auto simp: takeWhile_eq_all_conv)
  moreover have "length (takeWhile (\<lambda>x. x \<noteq> c) (rev s)) \<le> length (rev s)"
    by (rule length_takeWhile_le)
  ultimately show ?thesis
    by (metis le_neq_implies_less length_rev takeWhile_eq_take take_all_iff order_refl)
qed

lemma rev_dropWhile_rev:
  "rev (dropWhile Q (rev u)) = take (length u - length (takeWhile Q (rev u))) u"
proof -
  have "u = rev (dropWhile Q (rev u)) @ rev (takeWhile Q (rev u))"
    by (metis rev_append rev_rev_ident takeWhile_dropWhile_id)
  then have "take (length (rev (dropWhile Q (rev u)))) u = rev (dropWhile Q (rev u))"
    by (metis append_eq_conv_conj)
  moreover have "length (rev (dropWhile Q (rev u))) = length u - length (takeWhile Q (rev u))"
    by (metis add_diff_cancel_left' length_append length_rev takeWhile_dropWhile_id)
  ultimately show ?thesis by simp
qed

lemma slice_is_brace_span:
  assumes "CHR ''{'' \<in> set t" and "CHR ''}'' \<in> set t"
  shows "py_slice t (py_find t ''{'') (py_rfind t ''}'' + 1) = brace_span t"
proof -
  define P where "P = (\<lambda>x. x \<noteq> CHR ''{'')"
  define Q where "Q = (\<lambda>x. x \<noteq> CHR ''}'')"
  define i where "i = length (takeWhile P t)"
  define k where "k = length (takeWhile Q (rev t))"
  define u where "u = dropWhile P t"
  have i_le: "i \<le> length t" unfolding i_def by (rule length_takeWhile_le)
  have k_lt: "k < length t" unfolding k_def Q_def using assms(2) by (rule takeWhile_rev_less)
  have u_drop: "u = drop i t" unfolding u_def i_def by (rule dropWhile_eq_drop)
  have len_u: "length u = length t - i" by (simp add: u_drop)
  have find: "py_find t ''{'' = int i"
    using assms(1) by (simp add: py_find_char i_def P_def)
  have rfind: "py_rfind t ''}'' + 1 = int (length t - k)"
    using assms(2) k_lt by (simp add: py_rfind_char k_def Q_def)
  have slice: "py_slice t (py_find t ''{'') (py_rfind t ''}'' + 1)
                 = (if length t - k \<le> i then [] else take (length t - k - i) (drop i t))"
    unfolding find rfind using i_le by (simp add: py_slice_def slice_index_def Let_def)
  have span: "brace_span t = rev (dropWhile Q (rev u))"
    by (simp add: brace_span_def u_def P_def Q_def)
  have rt: "rev t = rev u @ rev (takeWhile P t)"
    by (metis rev_append takeWhile_dropWhile_id u_def)
  show ?thesis
  proof (cases "CHR ''}'' \<in> set u")
    case True
    then have "takeWhile Q (rev t) = takeWhile Q (rev u)"
      unfolding rt by (intro takeWhile_append1 [of "CHR ''}''"]) (auto simp: Q_def)
    then have k_u: "k = length (takeWhile Q (rev u))" by (simp add: k_def)
    have "k < length u"
      unfolding k_u Q_def using True by (rule takeWhile_rev_less)
    then have "\<not> length t - k \<le> i" using len_u by linarith
    moreover have "rev (dropWhile Q (rev u)) = take (length u - k) u"
      unfolding k_u by (rule rev_dropWhile_rev)
    moreover have "length u - k = length t - k - i" using len_u by linarith
    ultimately have "py_slice t (py_find t ''{'') (py_rfind t ''}'' + 1)
                       = take (length t - k - i) (drop i t)"
      and "rev (dropWhile Q (rev u)) = take (length t - k - i) (drop i t)"
      by (simp_all add: slice u_drop)
    then show ?thesis by (simp only: span)
  next
    case False
    then have all: "\<And>x. x \<in> set (rev u) \<Longrightarrow> Q x" by (auto simp: Q_def)
    then have "takeWhile Q (rev t) = rev u @ takeWhile Q (rev (takeWhile P t))"
      unfolding rt by (rule takeWhile_append2)
    then have "length u \<le> k" by (simp add: k_def)
    then have "length t - k \<le> i" using len_u by linarith
    moreover have "dropWhile Q (rev u) = []" using all by simp
    ultimately show ?thesis by (simp add: slice span)
  qed
qed

lemma brace_span_surrounded:
  assumes "CHR ''{'' \<notin> set a" "CHR ''}'' \<notin> set a" "CHR ''{'' \<notin> set b" "CHR ''}'' \<notin> set b"
  shows "brace_span (a @ m @ b) = brace_span m"
proof -
  define P where "P = (\<lambda>x. x \<noteq> CHR ''{'')"
  define Q where "Q = (\<lambda>x. x \<noteq> CHR ''}'')"
  have a: "dropWhile P (a @ m @ b) = dropWhile P (m @ b)"
    using assms(1) by (intro dropWhile_append2) (auto simp: P_def)
  have Qb: "\<And>x. x \<in> set (rev b) \<Longrightarrow> Q x" using assms(4) by (auto simp: Q_def)
  show ?thesis
  proof (cases "CHR ''{'' \<in> set m")
    case True
    then have "dropWhile P (m @ b) = dropWhile P m @ b"
      by (intro dropWhile_append1 [of "CHR ''{''"]) (auto simp: P_def)
    then have "dropWhile Q (rev (dropWhile P (a @ m @ b)))
                 = dropWhile Q (rev b @ rev (dropWhile P m))"
      by (simp add: a)
    also have "\<dots> = dropWhile Q (rev (dropWhile P m))"
      using Qb by (rule dropWhile_append2)
    finally show ?thesis by (simp add: brace_span_def P_def Q_def)
  next
    case False
    then have "\<And>x. x \<in> set m \<Longrightarrow> P x" by (auto simp: P_def)
    then have "dropWhile P (m @ b) = dropWhile P b"
      by (rule dropWhile_append2)
    moreover have "dropWhile P b = []" using assms(3) by (auto simp: P_def)
    ultimately have e1: "dropWhile P (a @ m @ b) = []" by (simp add: a)
    have e2: "dropWhile P m = []" using False by (auto simp: P_def)
    show ?thesis
      unfolding brace_span_def e1 [unfolded P_def] e2 [unfolded P_def] by (rule refl)
  qed
qed

lemma strip_decompose:
  "\<exists>a b. s = a @ py_strip s @ b \<and> (\<forall>c\<in>set a. py_isspace c) \<and> (\<forall>c\<in>set b. py_isspace c)"
proof -
  define a where "a = takeWhile py_isspace s"
  define t where "t = dropWhile py_isspace s"
  define b where "b = rev (takeWhile py_isspace (rev t))"
  have "rev t = takeWhile py_isspace (rev t) @ dropWhile py_isspace (rev t)" by simp
  then have "t = rev (dropWhile py_isspace (rev t)) @ b"
    unfolding b_def by (metis rev_append rev_rev_ident)
  then have "s = a @ py_strip s @ b"
    unfolding a_def py_strip_def t_def by (metis takeWhile_dropWhile_id)
  moreover have "\<forall>c\<in>set a. py_isspace c"
    unfolding a_def by (auto dest: set_takeWhileD)
  moreover have "\<forall>c\<in>set b. py_isspace c"
    unfolding b_def by (auto dest: set_takeWhileD)
  ultimately show ?thesis by blast
qed

lemma brace_not_space: "\<not> py_isspace (CHR ''{'')" "\<not> py_isspace (CHR ''}'')"
  by (simp_all add: py_isspace_def)

lemma strip_keeps_braces:
  "CHR ''{'' \<in> set (py_strip s) \<longleftrightarrow> CHR ''{'' \<in> set s"
  "CHR ''}'' \<in> set (py_strip s) \<longleftrightarrow> CHR ''}'' \<in> set s"
  "brace_span (py_strip s) = brace_span s"
proof -
  obtain a b where s: "s = a @ py_strip s @ b"
    and a: "\<forall>c\<in>set a. py_isspace c" and b: "\<forall>c\<in>set b. py_isspace c"
    using strip_decompose by blast
  have na: "CHR ''{'' \<notin> set a" "CHR ''}'' \<notin> set a" using a brace_not_space by auto
  have nb: "CHR ''{'' \<notin> set b" "CHR ''}'' \<notin> set b" using b brace_not_space by auto
  have "set s = set a \<union> set (py_strip s) \<union> set b"
    by (metis s set_append sup_assoc)
  then show "CHR ''{'' \<in> set (py_strip s) \<longleftrightarrow> CHR ''{'' \<in> set s"
    and "CHR ''}'' \<in> set (py_strip s) \<longleftrightarrow> CHR ''}'' \<in> set s"
    using na nb by auto
  show "brace_span (py_strip s) = brace_span s"
    using brace_span_surrounded [OF na nb, of "py_strip s"] s by simp
qed

lemma json_loads_error: "json_loads s = Inl e \<Longrightarrow> e = JSONDecodeError"
  by (auto simp: json_loads_def split: option.splits)

lemma parse_payload_recovery:
  assumes "json_loads content = Inl e"
  shows "parse_payload content =
     (if CHR ''{'' \<in> set content \<and> CHR ''}'' \<in> set content
      then json_loads (brace_span content)
      else Inr (PDict [(''products'', PList [])]))"
proof -
  have e: "e = JSONDecodeError" using assms by (rule json_loads_error)
  let ?t = "py_strip content"
  show ?thesis
  proof (cases "CHR ''{'' \<in> set content \<and> CHR ''}'' \<in> set content")
    case True
    then have t: "CHR ''{'' \<in> set ?t" "CHR ''}'' \<in> set ?t"
      by (simp_all add: strip_keeps_braces)
    have "py_find ?t ''{'' \<noteq> - 1" "py_rfind ?t ''}'' \<noteq> - 1"
      using t takeWhile_rev_less [OF t(2)] by (simp_all add: py_find_char py_rfind_char)
    then show ?thesis
      using True assms e slice_is_brace_span [OF t]
      by (simp add: parse_payload_def Let_def strip_keeps_braces)
  next
    case False
    then have "CHR ''{'' \<notin> set ?t \<or> CHR ''}'' \<notin> set ?t"
      by (simp add: strip_keeps_braces)
    then have "py_find ?t ''{'' = - 1 \<or> py_rfind ?t ''}'' = - 1"
      by (auto simp: py_find_char py_rfind_char)
    then show ?thesis
      using False assms e by (auto simp: parse_payload_def Let_def)
  qed
qed

lemma extract_strict:
  "json_loads content = Inr payload \<Longrightarrow>
     extract_products_from_content content = normalize_payload payload"
  by (simp add: extract_products_from_content_def parse_payload_def)

lemma normalize_payload_empty: "normalize_payload (PDict [(''products'', PList [])]) = Inr []"
  by (simp add: normalize_payload_def get_products_def dict_get_default_def py_or_def)

lemma extract_recovery:
  assumes "json_loads content = Inl e"
  shows "extract_products_from_content content =
     (if CHR ''{'' \<in> set content \<and> CHR ''}'' \<in> set content
      then (case json_loads (brace_span content) of
              Inl e' \<Rightarrow> Inl e'
            | Inr payload \<Rightarrow> normalize_payload payload)
      else Inr [])"
  by (simp add: extract_products_from_content_def parse_payload_recovery [OF assms]
      normalize_payload_empty)

lemma normalize_payload_no_key:
  "map_of d ''products'' = None \<Longrightarrow> normalize_payload (PDict d) = Inr []"
  by (simp add: normalize_payload_def get_products_def dict_get_default_def py_or_def)

lemma normalize_payload_not_object:
  "\<not> is_dict payload \<Longrightarrow> normalize_payload payload = Inl AttributeError"
  by (cases payload) (simp_all add: normalize_payload_def get_products_def)

subsection \<open>A response with one product\<close>

lemma demo_loads:
  \<open>json_loads ''{"products": [{"marca_nome": "X"}]}''
     = Inr (PDict [(''products'', PList [PDict [(''marca_nome'', PStr ''X'')]])])\<close>
  by (simp add: json_defs)

lemma demo_record:
  \<open>extract_products_from_content ''{"products": [{"marca_nome": "X"}]}''
     = Inr [PDict [(''marca_nome'', PStr ''X''), (''marca'', PStr ''''), (''produto'', PStr ''''),
                   (''preco_brl'', PNone), (''preco_brl_texto'', PStr ''''),
                   (''condicoes'', PList [])]]\<close>
  by (simp add: extract_strict [OF demo_loads] normalize_payload_def get_products_def
      dict_get_default_def py_or_def normalize_product_PDict dict_get_Cons dict_get_Nil
      coerce_price_def normalize_condicoes_cases)

subsection \<open>C1: what the response parser does with a response text\<close>

text \<open>
  Claim C1, as amended. For every raw model response text: when strict parsing succeeds
  the payload is used as it is; when it fails and the text has both a \<^verbatim>\<open>{\<close> and a
  \<^verbatim>\<open>}\<close>, the parser retries on the substring from the first \<^verbatim>\<open>{\<close> to the last \<^verbatim>\<open>}\<close>
  inclusive and uses the payload that this second parse gives; when it fails and the text
  lacks one of the two braces, the function returns zero products. A payload that is an
  object without the key \<^verbatim>\<open>products\<close> gives zero products. A payload that is not an object
  makes \<^verbatim>\<open>payload.get\<close> raise \<^verbatim>\<open>AttributeError\<close> to the caller.
\<close>

theorem C1_response_parser:
  "(json_loads content = Inr payload \<longrightarrow>
      extract_products_from_content content = normalize_payload payload)
   \<and> (json_loads content = Inl e \<and> CHR ''{'' \<in> set content \<and> CHR ''}'' \<in> set content
        \<and> json_loads (brace_span content) = Inr payload \<longrightarrow>
      extract_products_from_content content = normalize_payload payload)
   \<and> (json_loads content = Inl e \<and> (CHR ''{'' \<notin> set content \<or> CHR ''}'' \<notin> set content) \<longrightarrow>
      extract_products_from_content content = Inr [])
   \<and> (map_of d ''products'' = None \<longrightarrow> normalize_payload (PDict d) = Inr [])
   \<and> (\<not> is_dict payload \<longrightarrow> normalize_payload payload = Inl AttributeError)"
  by (auto simp: extract_strict extract_recovery normalize_payload_no_key
      normalize_payload_not_object)

lemma loads_examples:
  \<open>json_loads ''Segue o JSON: {"products": [{"marca_nome": "X"}]} fim'' = Inl JSONDecodeError\<close>
  \<open>json_loads ''sem produtos'' = Inl JSONDecodeError\<close>
  \<open>json_loads ''[]'' = Inr (PList [])\<close>
  by (simp_all add: json_defs)

lemma span_example:
  \<open>brace_span ''Segue o JSON: {"products": [{"marca_nome": "X"}]} fim''
     = ''{"products": [{"marca_nome": "X"}]}''\<close>
  by (simp add: brace_span_def)

lemma demo_payload:
  "normalize_payload (PDict [(''products'', PList [PDict [(''marca_nome'', PStr ''X'')]])])
     = Inr [PDict [(''marca_nome'', PStr ''X''), (''marca'', PStr ''''), (''produto'', PStr ''''),
                   (''preco_brl'', PNone), (''preco_brl_texto'', PStr ''''),
                   (''condicoes'', PList [])]]"
  using demo_record by (simp add: extract_strict [OF demo_loads])

text \<open>
  A response that is the object, a response with the object inside other text, a response
  without braces, a payload without the key, and a payload that is a list.
\<close>

theorem C1_response_parser_witness:
  \<open>extract_products_from_content ''{"products": [{"marca_nome": "X"}]}''
     = Inr [PDict [(''marca_nome'', PStr ''X''), (''marca'', PStr ''''), (''produto'', PStr ''''),
                   (''preco_brl'', PNone), (''preco_brl_texto'', PStr ''''),
                   (''condicoes'', PList [])]]
   \<and> extract_products_from_content ''Segue o JSON: {"products": [{"marca_nome": "X"}]} fim''
     = Inr [PDict [(''marca_nome'', PStr ''X''), (''marca'', PStr ''''), (''produto'', PStr ''''),
                   (''preco_brl'', PNone), (''preco_brl_texto'', PStr ''''),
                   (''condicoes'', PList [])]]
   \<and> extract_products_from_content ''sem produtos'' = Inr []
   \<and> normalize_payload (PDict [(''marca'', PStr ''X'')]) = Inr []
   \<and> normalize_payload (PList []) = Inl AttributeError\<close>
proof -
  note a = C1_response_parser
    [of \<open>''{"products": [{"marca_nome": "X"}]}''\<close>
        "PDict [(''products'', PList [PDict [(''marca_nome'', PStr ''X'')]])]"
        JSONDecodeError "[(''marca'', PStr ''X'')]"]
  note b = C1_response_parser
    [of \<open>''Segue o JSON: {"products": [{"marca_nome": "X"}]} fim''\<close>
        "PDict [(''products'', PList [PDict [(''marca_nome'', PStr ''X'')]])]"
        JSONDecodeError "[]"]
  note c = C1_response_parser [of "''sem produtos''" "PList []" JSONDecodeError "[]"]
  show ?thesis
    using a b c
    by (simp add: loads_examples span_example demo_loads demo_payload)
qed

text \<open>
  The claim as stated has the parser never raise. The response \<^verbatim>\<open>[]\<close> is JSON, strict
  parsing returns the empty list, and \<^verbatim>\<open>payload.get\<close> raises on it.
\<close>

theorem C1_not_object_counterexample:
  \<open>extract_products_from_content ''[]'' = Inl AttributeError\<close>
  by (simp add: extract_strict [OF loads_examples(3)] normalize_payload_not_object)

text \<open>
  The amended claim says nothing of a recovery parse that fails. There the second
  \<^verbatim>\<open>json.loads\<close>, which no handler guards, raises to the caller: so on a response cut
  off in the middle of its second product.
\<close>

lemma recovery_failure_raises:
  \<open>extract_products_from_content ''{"products": [{"marca_nome": "A"}, {"marca_no''
     = Inl JSONDecodeError\<close>
proof -
  have 1: \<open>json_loads ''{"products": [{"marca_nome": "A"}, {"marca_no'' = Inl JSONDecodeError\<close>
    by (simp add: json_defs)
  have 2: \<open>brace_span ''{"products": [{"marca_nome": "A"}, {"marca_no''
             = ''{"products": [{"marca_nome": "A"}''\<close>
    by (simp add: brace_span_def)
  have 3: \<open>json_loads ''{"products": [{"marca_nome": "A"}'' = Inl JSONDecodeError\<close>
    by (simp add: json_defs)
  show ?thesis
    by (simp add: extract_recovery [OF 1] 2 3)
qed

subsection \<open>C2: an object embedded in text that is not JSON\<close>

text \<open>
  Claim C2, as amended. For every object text (a text from a \<^verbatim>\<open>{\<close> to a \<^verbatim>\<open>}\<close>) and
  every leading and trailing text without braces such that the surrounded text is not
  itself a JSON document (strict parsing of it fails), the function gives for the
  surrounded text what it gives for the object text alone: the same records, or the same
  exception.
\<close>

theorem C2_recovery_of_embedded_object:
  assumes pre: "CHR ''{'' \<notin> set pre" "CHR ''}'' \<notin> set pre"
    and post: "CHR ''{'' \<notin> set post" "CHR ''}'' \<notin> set post"
    and not_json: "json_loads (pre @ CHR ''{'' # mid @ ''}'' @ post) = Inl e"
  shows "extract_products_from_content (pre @ CHR ''{'' # mid @ ''}'' @ post)
           = extract_products_from_content (CHR ''{'' # mid @ ''}'')"
proof -
  let ?obj = "CHR ''{'' # mid @ ''}''"
  have own: "brace_span ?obj = ?obj"
    by (simp add: brace_span_def)
  have "brace_span (pre @ ?obj @ post) = brace_span ?obj"
    using pre post by (rule brace_span_surrounded)
  then have span: "brace_span (pre @ CHR ''{'' # mid @ ''}'' @ post) = ?obj"
    using own by simp
  have whole: "extract_products_from_content (pre @ CHR ''{'' # mid @ ''}'' @ post)
                 = (case json_loads ?obj of
                      Inl e' \<Rightarrow> Inl e'
                    | Inr payload \<Rightarrow> normalize_payload payload)"
    using extract_recovery [OF not_json] span by simp
  show ?thesis
  proof (cases "json_loads ?obj")
    case (Inl e')
    then show ?thesis
      using whole extract_recovery [OF Inl] own by simp
  next
    case (Inr payload)
    then show ?thesis
      using whole extract_strict [OF Inr] by simp
  qed
qed

lemma embedded_not_json:
  \<open>json_loads (''Segue o JSON: '' @ CHR ''{'' # ''"products": [{"marca_nome": "X"}]'' @ ''}''
       @ '' fim'') = Inl JSONDecodeError\<close>
  by (simp add: json_defs)

theorem C2_recovery_of_embedded_object_witness:
  \<open>extract_products_from_content ''Segue o JSON: {"products": [{"marca_nome": "X"}]} fim''
     = extract_products_from_content ''{"products": [{"marca_nome": "X"}]}''
   \<and> extract_products_from_content ''{"products": [{"marca_nome": "X"}]}''
     = Inr [PDict [(''marca_nome'', PStr ''X''), (''marca'', PStr ''''), (''produto'', PStr ''''),
                   (''preco_brl'', PNone), (''preco_brl_texto'', PStr ''''),
                   (''condicoes'', PList [])]]\<close>
  using C2_recovery_of_embedded_object
    [of "''Segue o JSON: ''" "'' fim''" \<open>''"products": [{"marca_nome": "X"}]''\<close> JSONDecodeError,
     OF _ _ _ _ embedded_not_json]
  by (simp add: demo_record)

text \<open>
  The claim as stated takes any leading and trailing text without braces. Between
  \<^verbatim>\<open>[\<close> and \<^verbatim>\<open>]\<close> the object is an element of a JSON array: strict parsing succeeds, no
  recovery takes place, and \<^verbatim>\<open>payload.get\<close> raises on the list, while the object alone
  gives its record.
\<close>

theorem C2_array_wrapper_counterexample:
  \<open>extract_products_from_content ''[{"products": [{"marca_nome": "X"}]}]'' = Inl AttributeError
   \<and> extract_products_from_content ''{"products": [{"marca_nome": "X"}]}''
     = Inr [PDict [(''marca_nome'', PStr ''X''), (''marca'', PStr ''''), (''produto'', PStr ''''),
                   (''preco_brl'', PNone), (''preco_brl_texto'', PStr ''''),
                   (''condicoes'', PList [])]]\<close>
proof -
  have \<open>json_loads ''[{"products": [{"marca_nome": "X"}]}]''
          = Inr (PList [PDict [(''products'', PList [PDict [(''marca_nome'', PStr ''X'')]])]])\<close>
    by (simp add: json_defs)
  then show ?thesis
    by (simp add: extract_strict normalize_payload_not_object demo_record)
qed

subsection \<open>C3: the price coercion on the examples of the specification\<close>

text \<open>
  Claim C3. The field normalizer turns the raw price \<^verbatim>\<open>"R$ 29,90"\<close> into the float
  \<^verbatim>\<open>29.90\<close>, the raw price \<^verbatim>\<open>"R$ 1.234,56"\<close> into the float \<^verbatim>\<open>1234.56\<close>, and leaves a raw
  price that is already the float \<^verbatim>\<open>19.9\<close> as it is. The floats are written out: the
  binary64 value nearest to 29.9 is \<open>4208050901824307 / 2 ^ 47\<close>, the one nearest to
  1234.56 is \<open>2714826150374277 / 2 ^ 41\<close>, the one nearest to 19.9 is
  \<open>2800676018271027 / 2 ^ 47\<close>.
\<close>

theorem C3_price_examples:
  "normalize_product (PDict [(''preco_brl'', PStr ''R$ 29,90'')])
     = Inr (PDict [(''marca_nome'', PStr ''''), (''marca'', PStr ''''), (''produto'', PStr ''''),
                   (''preco_brl'', PFloat (Finite (4208050901824307 / 140737488355328))),
                   (''preco_brl_texto'', PStr ''''), (''condicoes'', PList [])])
   \<and> normalize_product (PDict [(''preco_brl'', PStr ''R$ 1.234,56'')])
     = Inr (PDict [(''marca_nome'', PStr ''''), (''marca'', PStr ''''), (''produto'', PStr ''''),
                   (''preco_brl'', PFloat (Finite (2714826150374277 / 2199023255552))),
                   (''preco_brl_texto'', PStr ''''), (''condicoes'', PList [])])
   \<and> normalize_product
         (PDict [(''preco_brl'', PFloat (Finite (2800676018271027 / 140737488355328)))])
     = Inr (PDict [(''marca_nome'', PStr ''''), (''marca'', PStr ''''), (''produto'', PStr ''''),
                   (''preco_brl'', PFloat (Finite (2800676018271027 / 140737488355328))),
                   (''preco_brl_texto'', PStr ''''), (''condicoes'', PList [])])
   \<and> (4208050901824307 / 140737488355328 :: rat) = 4208050901824307 / 2 ^ 47
   \<and> \<bar>4208050901824307 / 140737488355328 - 2990 / 100 :: rat\<bar> \<le> 1 / 2 ^ 49
   \<and> (2714826150374277 / 2199023255552 :: rat) = 2714826150374277 / 2 ^ 41
   \<and> \<bar>2714826150374277 / 2199023255552 - 123456 / 100 :: rat\<bar> \<le> 1 / 2 ^ 43
   \<and> (2800676018271027 / 140737488355328 :: rat) = 2800676018271027 / 2 ^ 47
   \<and> \<bar>2800676018271027 / 140737488355328 - 199 / 10 :: rat\<bar> \<le> 1 / 2 ^ 49"
  by (simp add: normalize_product_PDict dict_get_Cons dict_get_Nil py_or_def
      normalize_condicoes_cases coerce_price_float
      coerce_price_fallback [where e = ValueError] float_examples cleanup_examples py_str_def)

text \<open>The same prices, from the text of a model response to the normalized records.\<close>

lemma loads_price_text:
  \<open>json_loads ''{"products": [{"preco_brl": "R$ 29,90"}, {"preco_brl": 19.9}]}''
    = Inr (PDict [(''products'',
         PList [PDict [(''preco_brl'', PStr ''R$ 29,90'')],
                PDict [(''preco_brl'', PFloat (Finite (2800676018271027 / 140737488355328)))]])])\<close>
  by (simp add: json_defs double_values [unfolded double_def, simplified])

lemma price_from_text:
  \<open>extract_products_from_content
      ''{"products": [{"preco_brl": "R$ 29,90"}, {"preco_brl": 19.9}]}''
    = Inr [PDict [(''marca_nome'', PStr ''''), (''marca'', PStr ''''), (''produto'', PStr ''''),
                  (''preco_brl'', PFloat (Finite (4208050901824307 / 140737488355328))),
                  (''preco_brl_texto'', PStr ''''), (''condicoes'', PList [])],
           PDict [(''marca_nome'', PStr ''''), (''marca'', PStr ''''), (''produto'', PStr ''''),
                  (''preco_brl'', PFloat (Finite (2800676018271027 / 140737488355328))),
                  (''preco_brl_texto'', PStr ''''), (''condicoes'', PList [])]]\<close>
  by (simp add: extract_products_from_content_def normalize_payload_def parse_payload_def
      loads_price_text get_products_def dict_get_default_def
      normalize_product_PDict dict_get_Cons dict_get_Nil py_or_def
      normalize_condicoes_cases coerce_price_float
      coerce_price_fallback [where e = ValueError] float_examples cleanup_examples py_str_def)

subsection \<open>C4: the fallback of the price coercion\<close>

lemma set_strip_marker: "set (strip_marker s) \<subseteq> set s"
  by (induction s rule: strip_marker.induct) auto

text \<open>
  Where the only whitespace of a text is the space character, the cleanup of the amended
  claim and the cleanup of the specification give the same text.
\<close>

lemma space_cleanup_is_locale_cleanup:
  assumes "\<forall>c\<in>set s. py_isspace c \<longrightarrow> c = CHR '' ''"
  shows "space_cleanup s = locale_cleanup s"
proof -
  have "\<forall>c\<in>set (strip_marker s). py_isspace c \<longrightarrow> c = CHR '' ''"
    using assms set_strip_marker by blast
  moreover have "py_isspace (CHR '' '')"
    by (simp add: py_isspace_def)
  ultimately have "filter (\<lambda>c. c \<noteq> CHR '' '') (strip_marker s)
                     = filter (\<lambda>c. \<not> py_isspace c) (strip_marker s)"
    by (intro filter_cong) auto
  then show ?thesis
    by (simp add: space_cleanup_def locale_cleanup_def)
qed

text \<open>
  Claim C4, as amended. For every raw product record the field normalizer produces the
  record, and the price of the record is: \<^verbatim>\<open>None\<close> when the price field is absent or
  \<^verbatim>\<open>None\<close> (no coercion is tried and the textual-price field is not read); the float that
  \<^verbatim>\<open>float\<close> returns for the price field when it returns one; and, when \<^verbatim>\<open>float\<close> raises
  on a price field that is present, what \<^verbatim>\<open>float\<close> makes of the cleanup (the marker
  \<^verbatim>\<open>R$\<close> and the space characters stripped, the grouping dots removed, the comma replaced
  by a point) of the price field, or of the textual-price field when the price field is
  falsy; when \<^verbatim>\<open>float\<close> raises on that too, the price is \<^verbatim>\<open>None\<close>: not zero, and no
  exception.
\<close>

theorem C4_price_fallback:
  "\<exists>r. normalize_product (PDict d) = Inr (PDict r)
     \<and> dict_get r ''preco_brl''
         = (if dict_get d ''preco_brl'' = PNone then PNone
            else case py_float (dict_get d ''preco_brl'') of
                   Inr f \<Rightarrow> PFloat f
                 | Inl e \<Rightarrow>
                     (case float_of_str
                             (space_cleanup
                                (py_str
                                   (if truthy (dict_get d ''preco_brl'')
                                    then dict_get d ''preco_brl''
                                    else py_or (py_or (dict_get d ''preco_brl_texto'')
                                                  (dict_get d ''preco_texto'')) (PStr ''''))))
                      of Inr f \<Rightarrow> PFloat f
                       | Inl e' \<Rightarrow> PNone))"
proof (cases "dict_get d ''preco_brl'' = PNone")
  case True
  then show ?thesis
    by (simp add: normalize_product_PDict dict_get_Cons coerce_price_def)
next
  case False
  show ?thesis
  proof (cases "py_float (dict_get d ''preco_brl'')")
    case (Inl e)
    show ?thesis
      using coerce_price_fallback [OF False Inl] False Inl
      by (simp add: normalize_product_PDict dict_get_Cons texto_or_empty)
  next
    case (Inr f)
    then show ?thesis
      using False by (simp add: normalize_product_PDict dict_get_Cons coerce_price_def)
  qed
qed

text \<open>
  A price in the price field, a price in the textual-price field behind an empty price
  field, a text that is no price, and a textual price without a price field.
\<close>

theorem C4_price_fallback_witness:
  "(\<exists>r. normalize_product (PDict [(''preco_brl'', PStr ''R$ 1.234,56'')]) = Inr (PDict r)
       \<and> dict_get r ''preco_brl'' = PFloat (Finite (2714826150374277 / 2199023255552)))
   \<and> (\<exists>r. normalize_product
              (PDict [(''preco_brl'', PStr ''''), (''preco_brl_texto'', PStr ''R$ 29,90'')])
            = Inr (PDict r)
       \<and> dict_get r ''preco_brl'' = PFloat (Finite (4208050901824307 / 140737488355328)))
   \<and> (\<exists>r. normalize_product (PDict [(''preco_brl'', PStr ''sob consulta'')]) = Inr (PDict r)
       \<and> dict_get r ''preco_brl'' = PNone)
   \<and> (\<exists>r. normalize_product (PDict [(''preco_brl_texto'', PStr ''R$ 29,90'')]) = Inr (PDict r)
       \<and> dict_get r ''preco_brl'' = PNone)"
proof (intro conjI)
  show "\<exists>r. normalize_product (PDict [(''preco_brl'', PStr ''R$ 1.234,56'')]) = Inr (PDict r)
       \<and> dict_get r ''preco_brl'' = PFloat (Finite (2714826150374277 / 2199023255552))"
    using C4_price_fallback [of "[(''preco_brl'', PStr ''R$ 1.234,56'')]"]
    by (simp add: dict_get_Cons dict_get_Nil float_examples cleanup_examples py_str_def py_or_def)
  show "\<exists>r. normalize_product
              (PDict [(''preco_brl'', PStr ''''), (''preco_brl_texto'', PStr ''R$ 29,90'')])
            = Inr (PDict r)
       \<and> dict_get r ''preco_brl'' = PFloat (Finite (4208050901824307 / 140737488355328))"
    using C4_price_fallback
      [of "[(''preco_brl'', PStr ''''), (''preco_brl_texto'', PStr ''R$ 29,90'')]"]
    by (simp add: dict_get_Cons dict_get_Nil float_examples cleanup_examples py_str_def py_or_def)
  show "\<exists>r. normalize_product (PDict [(''preco_brl'', PStr ''sob consulta'')]) = Inr (PDict r)
       \<and> dict_get r ''preco_brl'' = PNone"
    using C4_price_fallback [of "[(''preco_brl'', PStr ''sob consulta'')]"]
    by (simp add: dict_get_Cons dict_get_Nil float_examples cleanup_examples py_str_def py_or_def)
  show "\<exists>r. normalize_product (PDict [(''preco_brl_texto'', PStr ''R$ 29,90'')]) = Inr (PDict r)
       \<and> dict_get r ''preco_brl'' = PNone"
    using C4_price_fallback [of "[(''preco_brl_texto'', PStr ''R$ 29,90'')]"]
    by (simp add: dict_get_Cons dict_get_Nil)
qed

text \<open>
  The claim as stated has the fallback whenever the direct coercion of the price field
  fails, and a cleanup that strips whitespace. First, a record with the textual price
  \<^verbatim>\<open>"R$ 29,90"\<close> and no price field: \<^verbatim>\<open>float(None)\<close> would raise, the cleanup of the
  textual price reads as 29.90, and the price of the record is \<^verbatim>\<open>None\<close>, since line 136
  tries no coercion on \<^verbatim>\<open>None\<close>. Second, the price \<^verbatim>\<open>"R$ 1<TAB>234,56"\<close>: the cleanup of
  the specification gives \<^verbatim>\<open>1234.56\<close>, the code leaves the tab in the text, and the price
  of the record is \<^verbatim>\<open>None\<close>.
\<close>

theorem C4_no_fallback_counterexample:
  "normalize_product (PDict [(''preco_brl_texto'', PStr ''R$ 29,90'')])
     = Inr (PDict [(''marca_nome'', PStr ''''), (''marca'', PStr ''''), (''produto'', PStr ''''),
                   (''preco_brl'', PNone),
                   (''preco_brl_texto'', PStr ''R$ 29,90''), (''condicoes'', PList [])])
   \<and> py_float (dict_get [(''preco_brl_texto'', PStr ''R$ 29,90'')] ''preco_brl'') = Inl TypeError
   \<and> float_of_str (locale_cleanup ''R$ 29,90'')
     = Inr (Finite (4208050901824307 / 140737488355328))
   \<and> normalize_product (PDict [(''preco_brl'', PStr (''R$ 1'' @ [CHR 0x09] @ ''234,56''))])
     = Inr (PDict [(''marca_nome'', PStr ''''), (''marca'', PStr ''''), (''produto'', PStr ''''),
                   (''preco_brl'', PNone),
                   (''preco_brl_texto'', PStr ''''), (''condicoes'', PList [])])
   \<and> py_float (PStr (''R$ 1'' @ [CHR 0x09] @ ''234,56'')) = Inl ValueError
   \<and> float_of_str (locale_cleanup (''R$ 1'' @ [CHR 0x09] @ ''234,56''))
     = Inr (Finite (2714826150374277 / 2199023255552))"
proof -
  have tab: "space_cleanup (''R$ 1'' @ [CHR 0x09] @ ''234,56'') = ''1'' @ [CHR 0x09] @ ''234.56''"
    by (simp add: space_cleanup_def)
  have spec: "locale_cleanup (''R$ 1'' @ [CHR 0x09] @ ''234,56'') = ''1234.56''"
    "locale_cleanup ''R$ 29,90'' = ''29.90''"
    by (simp_all add: locale_cleanup_def py_isspace_def)
  have raises: "py_float (PStr (''R$ 1'' @ [CHR 0x09] @ ''234,56'')) = Inl ValueError"
    using float_examples(8) by simp
  have "coerce_price (PStr (''R$ 1'' @ [CHR 0x09] @ ''234,56'')) (PStr '''') = PNone"
    using coerce_price_fallback [OF _ raises, of "PStr ''''"] tab float_examples(9)
    by (simp add: py_or_def py_str_def)
  then show ?thesis
    using raises spec float_examples
    by (simp add: normalize_product_PDict dict_get_Cons dict_get_Nil py_or_def
        normalize_condicoes_cases coerce_price_def)
qed

subsection \<open>C5: the shape of the normalized conditions\<close>

text \<open>
  Claim C5, as amended. For every raw product record, the \<^verbatim>\<open>condicoes\<close> of the record the
  field normalizer produces is: the one-element list holding the raw value when that is a
  non-empty mapping; the raw value itself when it is a list; the empty list for every
  other raw value (absent, \<^verbatim>\<open>None\<close>, a string, a number, a boolean) and also for the empty
  mapping, which \<^verbatim>\<open>p.get("condicoes") or []\<close> replaces by \<^verbatim>\<open>[]\<close> before the
  \<^verbatim>\<open>isinstance\<close> tests.
\<close>

theorem C5_conditions_shape:
  "\<exists>r. normalize_product (PDict d) = Inr (PDict r)
     \<and> dict_get r ''condicoes''
         = (case dict_get d ''condicoes'' of
              PDict kvs \<Rightarrow> if kvs = [] then PList [] else PList [PDict kvs]
            | PList xs \<Rightarrow> PList xs
            | _ \<Rightarrow> PList [])"
  by (simp add: normalize_product_PDict dict_get_Cons normalize_condicoes_cases)

text \<open>The spec's own example: a single mapping \<^verbatim>\<open>{"tipo": "desconto", "valor": "10%"}\<close>.\<close>

theorem C5_conditions_shape_witness:
  "\<exists>r. normalize_product
         (PDict [(''condicoes'', PDict [(''tipo'', PStr ''desconto''), (''valor'', PStr ''10%'')])])
       = Inr (PDict r)
     \<and> dict_get r ''condicoes''
         = PList [PDict [(''tipo'', PStr ''desconto''), (''valor'', PStr ''10%'')]]"
  using C5_conditions_shape
    [of "[(''condicoes'', PDict [(''tipo'', PStr ''desconto''), (''valor'', PStr ''10%'')])]"]
  by (simp add: dict_get_Cons)

text \<open>
  The claim as stated wraps every single mapping; the empty mapping \<^verbatim>\<open>{}\<close> is one, and
  it normalizes to the empty list, not to \<^verbatim>\<open>[{}]\<close>.
\<close>

theorem C5_empty_mapping_counterexample:
  "normalize_product (PDict [(''condicoes'', PDict [])])
     = Inr (PDict [(''marca_nome'', PStr ''''), (''marca'', PStr ''''), (''produto'', PStr ''''),
                   (''preco_brl'', PNone), (''preco_brl_texto'', PStr ''''),
                   (''condicoes'', PList [])])"
  by (simp add: normalize_product_PDict dict_get_Cons dict_get_Nil py_or_def
      coerce_price_def normalize_condicoes_cases)

subsection \<open>C6: elements of the conditions that are not mappings\<close>

text \<open>
  Claim C6, as amended. For every raw product record whose \<^verbatim>\<open>condicoes\<close> is a list, the
  field normalizer keeps the list as it is, elements that are not mappings included, and
  produces the record without failing; it is the result aggregator that drops them, when
  \<^verbatim>\<open>build_dataframe\<close> renders the conditions column from the mappings of the list only.
\<close>

theorem C6_dropped_at_rendering:
  "dict_get d ''condicoes'' = PList xs \<Longrightarrow>
     \<exists>r. normalize_product (PDict d) = Inr (PDict r)
       \<and> dict_get r ''condicoes'' = PList xs
       \<and> condicoes_str r = py_join ''; '' (map render_condicao (filter is_dict xs))"
  by (cases xs)
     (simp_all add: normalize_product_PDict dict_get_Cons normalize_condicoes_cases
        condicoes_str_def py_or_def)

theorem C6_dropped_at_rendering_witness:
  "\<exists>r. normalize_product
         (PDict [(''condicoes'',
            PList [PInt 1, PDict [(''tipo'', PStr ''data''), (''valor'', PStr ''5/1'')], PStr ''x''])])
       = Inr (PDict r)
     \<and> dict_get r ''condicoes''
         = PList [PInt 1, PDict [(''tipo'', PStr ''data''), (''valor'', PStr ''5/1'')], PStr ''x'']
     \<and> condicoes_str r = ''data: 5/1''"
  using C6_dropped_at_rendering
    [of "[(''condicoes'',
            PList [PInt 1, PDict [(''tipo'', PStr ''data''), (''valor'', PStr ''5/1'')], PStr ''x''])]"
        "[PInt 1, PDict [(''tipo'', PStr ''data''), (''valor'', PStr ''5/1'')], PStr ''x'']"]
  by (simp add: dict_get_Cons render_condicao_def py_or_def py_str_def)

text \<open>
  The claim as stated has the field normalizer drop them: on \<^verbatim>\<open>{"condicoes": [1]}\<close> the
  record it produces still holds the integer.
\<close>

theorem C6_normalizer_keeps_counterexample:
  "normalize_product (PDict [(''condicoes'', PList [PInt 1])])
     = Inr (PDict [(''marca_nome'', PStr ''''), (''marca'', PStr ''''), (''produto'', PStr ''''),
                   (''preco_brl'', PNone), (''preco_brl_texto'', PStr ''''),
                   (''condicoes'', PList [PInt 1])])"
  by (simp add: normalize_product_PDict dict_get_Cons dict_get_Nil py_or_def
      coerce_price_def normalize_condicoes_cases)

subsection \<open>C7: what the price of a record can be\<close>

lemma coerce_price_shape:
  "coerce_price v texto = PNone \<or> (\<exists>f. coerce_price v texto = PFloat f)"
  by (cases "py_float v")
     (auto simp: coerce_price_def Let_def split: sum.splits)

lemma float_of_int_finite: "float_of_int n = Inr f \<Longrightarrow> is_finite f"
  by (auto simp: float_of_int_def Let_def is_finite_def split: if_splits)

lemma coerce_price_number:
  assumes "case v of PBool b \<Rightarrow> True | PInt n \<Rightarrow> float_of_int n \<noteq> Inl OverflowError
             | PFloat g \<Rightarrow> is_finite g | _ \<Rightarrow> False"
  shows "\<exists>f. coerce_price v texto = PFloat f \<and> is_finite f"
proof (cases v)
  case (PBool b)
  then show ?thesis by (simp add: coerce_price_def is_finite_def)
next
  case (PInt n)
  with assms obtain f where f: "float_of_int n = Inr f"
    by (cases "float_of_int n") (auto simp: float_of_int_def Let_def split: if_splits)
  then show ?thesis
    using float_of_int_finite [OF f] by (simp add: PInt coerce_price_def)
next
  case (PFloat g)
  then show ?thesis using assms by (simp add: coerce_price_def)
qed (use assms in simp_all)

text \<open>
  Claim C7, as amended. For every raw product record, the price of the record the field
  normalizer produces is \<^verbatim>\<open>None\<close> or a float, never a value of another type; and it is a
  finite float whenever the raw price field is a boolean, an integer that \<^verbatim>\<open>float\<close>
  converts without overflow, or a finite float. (A price given as text, a non-finite float
  or an integer beyond the range of a double can give an infinite or NaN price.)
\<close>

theorem C7_price_is_float:
  "\<exists>r. normalize_product (PDict d) = Inr (PDict r)
     \<and> (dict_get r ''preco_brl'' = PNone \<or> (\<exists>f. dict_get r ''preco_brl'' = PFloat f))
     \<and> ((case dict_get d ''preco_brl'' of
             PBool b \<Rightarrow> True
           | PInt n \<Rightarrow> float_of_int n \<noteq> Inl OverflowError
           | PFloat g \<Rightarrow> is_finite g
           | _ \<Rightarrow> False)
          \<longrightarrow> (\<exists>f. dict_get r ''preco_brl'' = PFloat f \<and> is_finite f))"
  using coerce_price_shape coerce_price_number
  by (simp add: normalize_product_PDict dict_get_Cons)

theorem C7_price_is_float_witness:
  "\<exists>r. normalize_product (PDict [(''preco_brl'', PFloat (Finite (5 / 2)))]) = Inr (PDict r)
     \<and> dict_get r ''preco_brl'' = PFloat (Finite (5 / 2)) \<and> is_finite (Finite (5 / 2))"
  using C7_price_is_float [of "[(''preco_brl'', PFloat (Finite (5 / 2)))]"]
  by (auto simp: dict_get_Cons normalize_product_PDict coerce_price_def is_finite_def)

text \<open>
  The claim as stated has every present price finite. For the response
  \<^verbatim>\<open>{"products": [{"preco_brl": "inf"}]}\<close> the call \<^verbatim>\<open>float("inf")\<close> returns, and the price
  of the record is the positive infinity.
\<close>

theorem C7_infinite_price_counterexample:
  \<open>extract_products_from_content ''{"products": [{"preco_brl": "inf"}]}''
     = Inr [PDict [(''marca_nome'', PStr ''''), (''marca'', PStr ''''), (''produto'', PStr ''''),
                   (''preco_brl'', PFloat PInf),
                   (''preco_brl_texto'', PStr ''''), (''condicoes'', PList [])]]
   \<and> \<not> is_finite PInf\<close>
  by (simp add: extract_products_from_content_def normalize_payload_def parse_payload_def
      json_defs get_products_def dict_get_default_def py_or_def normalize_product_PDict
      dict_get_Cons dict_get_Nil coerce_price_def float_parse_defs normalize_condicoes_cases
      is_finite_def)

subsection \<open>C8: the conditions column\<close>







subsection \<open>C9: one image that fails does not stop the batch\<close>

text \<open>
  The loop of \<^verbatim>\<open>main\<close> adds to what it has collected and reported, whatever that is, and
  the collected rows are, image by image, what \<open>records_of\<close> says.
\<close>

lemma process_images_acc:
  "process_images client model imgs (collected, reported) =
     (collected @ fst (process_images client model imgs ([], [])),
      reported @ snd (process_images client model imgs ([], [])))"
proof (induction imgs arbitrary: collected reported)
  case Nil
  then show ?case by simp
next
  case (Cons img imgs)
  obtain filename img_bytes where img: "img = (filename, img_bytes)" by (cases img)
  show ?case
  proof (cases "extract_products_from_image client model img_bytes filename")
    case (Inl ex)
    then show ?thesis
      using Cons.IH [of collected "reported @ [(filename, ex)]"]
        Cons.IH [of "[]" "[(filename, ex)]"]
      by (simp add: img)
  next
    case (Inr products)
    then show ?thesis
      using Cons.IH [of "collected @ map (\<lambda>p. (filename, p)) products" reported]
        Cons.IH [of "map (\<lambda>p. (filename, p)) products" "[]"]
      by (simp add: img)
  qed
qed

lemma process_images_collected:
  "fst (process_images client model imgs ([], [])) = concat (map (records_of client model) imgs)"
proof (induction imgs)
  case Nil
  then show ?case by simp
next
  case (Cons img imgs)
  obtain filename img_bytes where img: "img = (filename, img_bytes)" by (cases img)
  show ?case
  proof (cases "extract_products_from_image client model img_bytes filename")
    case (Inl ex)
    have "process_images client model (img # imgs) ([], [])
            = process_images client model imgs ([], [(filename, ex)])"
      by (simp add: img Inl)
    also have "\<dots> = ([] @ fst (process_images client model imgs ([], [])),
                      [(filename, ex)] @ snd (process_images client model imgs ([], [])))"
      by (rule process_images_acc)
    finally show ?thesis
      by (simp add: Cons.IH records_of_def img Inl)
  next
    case (Inr products)
    have "process_images client model (img # imgs) ([], [])
            = process_images client model imgs (map (\<lambda>p. (filename, p)) products, [])"
      by (simp add: img Inr)
    also have "\<dots> = (map (\<lambda>p. (filename, p)) products
                        @ fst (process_images client model imgs ([], [])),
                      [] @ snd (process_images client model imgs ([], [])))"
      by (rule process_images_acc)
    finally show ?thesis
      by (simp add: Cons.IH records_of_def img Inr)
  qed
qed

text \<open>
  Claim C9. In a batch of three images where the model call raises on the second and the
  processing of the first and of the third returns, the loop collects the normalized
  records of the first image and then those of the third, each under its file name,
  reports the second with its exception, and the number of rows is the sum of the two
  product counts.
\<close>

theorem C9_batch_continues:
  assumes second: "client model b2 f2 = Inl ex"
    and first: "extract_products_from_image client model b1 f1 = Inr ps1"
    and third: "extract_products_from_image client model b3 f3 = Inr ps3"
  shows "process_images client model [(f1, b1), (f2, b2), (f3, b3)] ([], [])
           = (map (\<lambda>p. (f1, p)) ps1 @ map (\<lambda>p. (f3, p)) ps3, [(f2, ex)])
         \<and> length (fst (process_images client model [(f1, b1), (f2, b2), (f3, b3)] ([], [])))
           = length ps1 + length ps3"
proof -
  have "extract_products_from_image client model b2 f2 = Inl ex"
    using second by (simp add: extract_products_from_image_def)
  then show ?thesis
    using first third by simp
qed

theorem C9_batch_continues_witness:
  "process_images demo_client ''gpt-4o-mini''
       [(''a.png'', [1]), (''b.png'', [2]), (''c.png'', [3])] ([], [])
     = ([(''a.png'', PDict [(''marca_nome'', PStr ''X''), (''marca'', PStr ''''),
                            (''produto'', PStr ''''), (''preco_brl'', PNone),
                            (''preco_brl_texto'', PStr ''''), (''condicoes'', PList [])]),
         (''c.png'', PDict [(''marca_nome'', PStr ''X''), (''marca'', PStr ''''),
                            (''produto'', PStr ''''), (''preco_brl'', PNone),
                            (''preco_brl_texto'', PStr ''''), (''condicoes'', PList [])])],
        [(''b.png'', APIError)])"
proof -
  have second: "demo_client ''gpt-4o-mini'' [2] ''b.png'' = Inl APIError"
    by (simp add: demo_client_def)
  have first: "extract_products_from_image demo_client ''gpt-4o-mini'' [1] ''a.png''
      = Inr [PDict [(''marca_nome'', PStr ''X''), (''marca'', PStr ''''), (''produto'', PStr ''''),
                    (''preco_brl'', PNone), (''preco_brl_texto'', PStr ''''),
                    (''condicoes'', PList [])]]"
    by (simp add: extract_products_from_image_def demo_client_def demo_record)
  have third: "extract_products_from_image demo_client ''gpt-4o-mini'' [3] ''c.png''
      = Inr [PDict [(''marca_nome'', PStr ''X''), (''marca'', PStr ''''), (''produto'', PStr ''''),
                    (''preco_brl'', PNone), (''preco_brl_texto'', PStr ''''),
                    (''condicoes'', PList [])]]"
    by (simp add: extract_products_from_image_def demo_client_def demo_record)
  show ?thesis
    using C9_batch_continues [OF second first third] by simp
qed

subsection \<open>C10: a falsy value under the products key\<close>

text \<open>
  Claim C10. When the payload that the response parser obtains is an object that maps
  \<^verbatim>\<open>products\<close> to a falsy value (\<^verbatim>\<open>null\<close>, \<^verbatim>\<open>false\<close>, a zero, an empty string, list or
  object), the product list it selects is the empty list, and the function returns an
  empty list of records: it neither raises nor hands the falsy value on.
\<close>

theorem C10_falsy_products:
  "parse_payload content = Inr (PDict d) \<Longrightarrow> map_of d ''products'' = Some v \<Longrightarrow>
     \<not> truthy v \<Longrightarrow>
     get_products (PDict d) = Inr (PList []) \<and> extract_products_from_content content = Inr []"
  by (simp add: extract_products_from_content_def normalize_payload_def get_products_def
      dict_get_default_def py_or_def)

lemma loads_null_products:
  \<open>json_loads ''{"products": null}'' = Inr (PDict [(''products'', PNone)])\<close>
  by (simp add: json_defs)

theorem C10_falsy_products_witness:
  \<open>parse_payload ''{"products": null}'' = Inr (PDict [(''products'', PNone)])
   \<and> get_products (PDict [(''products'', PNone)]) = Inr (PList [])
   \<and> extract_products_from_content ''{"products": null}'' = Inr []\<close>
proof -
  have p: \<open>parse_payload ''{"products": null}'' = Inr (PDict [(''products'', PNone)])\<close>
    by (simp add: parse_payload_def loads_null_products)
  show ?thesis
    using p C10_falsy_products [OF p, of PNone] by simp
qed

lemma empty_object_products:
  \<open>extract_products_from_content ''{"products": {}}'' = Inr []\<close>
  by (simp add: extract_products_from_content_def parse_payload_def json_defs
      normalize_payload_def get_products_def dict_get_default_def py_or_def)

end
